theory Spec2Isabelle
  imports
    Main
    "HOL-Library.Char_ord"
    "HOL-Library.List_Lexorder"
    "HOL-Library.Product_Lexorder"
    "HOL-Library.Sublist"
begin

section \<open>The runboat controller (src/runboat/controller.py)\<close>

text \<open>
  The controller owns an in-memory database of builds and runs five background loops
  under a restarting supervisor. Its asynchronous functions are embedded as pure
  functions that return what the function did: the calls it made on builds, what it
  logged, the signals it sent (a list of effects, in program order), the controller as
  the function left it, and how the function ended.
\<close>

subsection \<open>Builds (models.py)\<close>

text \<open>
  Modelled from the spec: the enumerations \<open>BuildStatus\<close> and \<open>BuildInitStatus\<close> and the
  class \<open>Build\<close> of models.py are imported by controller.py and are not part of the
  sources; the values and attributes are those of the data model of the specification.
\<close>

datatype BuildStatus =
  BuildStatus_deploying | BuildStatus_started | BuildStatus_stopped | BuildStatus_undeployed

datatype BuildInitStatus =
  BuildInitStatus_todo | BuildInitStatus_started | BuildInitStatus_succeeded
  | BuildInitStatus_failed

record Build =
  name :: string
  repo :: string
  target_branch :: string
  pr :: "int option"
  git_commit :: string
  status :: BuildStatus
  init_status :: BuildInitStatus
  last_transition_time :: int

subsection \<open>BuildsDb (db.py)\<close>

text \<open>
  Modelled from the spec: the class \<open>BuildsDb\<close> of db.py is imported by controller.py and
  is not part of the sources. The specification describes it as an index from build name
  to build holding at most one build per name, with insert or replace by name, removal
  by name, lookup by name and by commit identity, three counts, and three selections
  bounded by a limit: the builds to initialize in arrival order, and the started and the
  stopped builds oldest first (by \<open>last_transition_time\<close>, ties broken by name). The rows
  are kept here in arrival order; a replaced row keeps its place.
\<close>

type_synonym BuildsDb = "Build list"

definition BuildsDb_empty :: BuildsDb where
  "BuildsDb_empty = []"

fun BuildsDb_add :: "BuildsDb \<Rightarrow> Build \<Rightarrow> BuildsDb" where
  "BuildsDb_add [] b = [b]"
| "BuildsDb_add (x # xs) b = (if name x = name b then b # xs else x # BuildsDb_add xs b)"

definition BuildsDb_remove :: "BuildsDb \<Rightarrow> string \<Rightarrow> BuildsDb" where
  "BuildsDb_remove rows n = filter (\<lambda>b. name b \<noteq> n) rows"

definition BuildsDb_get :: "BuildsDb \<Rightarrow> string \<Rightarrow> Build option" where
  "BuildsDb_get rows n = find (\<lambda>b. name b = n) rows"

definition same_commit :: "string \<Rightarrow> string \<Rightarrow> int option \<Rightarrow> string \<Rightarrow> Build \<Rightarrow> bool" where
  "same_commit r tb p gc b \<longleftrightarrow>
     repo b = r \<and> target_branch b = tb \<and> pr b = p \<and> git_commit b = gc"

definition BuildsDb_get_for_commit ::
  "BuildsDb \<Rightarrow> string \<Rightarrow> string \<Rightarrow> int option \<Rightarrow> string \<Rightarrow> Build option" where
  "BuildsDb_get_for_commit rows r tb p gc = find (same_commit r tb p gc) rows"

definition BuildsDb_count_by_status :: "BuildsDb \<Rightarrow> BuildStatus \<Rightarrow> int" where
  "BuildsDb_count_by_status rows st = int (length (filter (\<lambda>b. status b = st) rows))"

definition BuildsDb_count_by_init_status :: "BuildsDb \<Rightarrow> BuildInitStatus \<Rightarrow> int" where
  "BuildsDb_count_by_init_status rows st =
     int (length (filter (\<lambda>b. init_status b = st) rows))"

definition BuildsDb_count_all :: "BuildsDb \<Rightarrow> int" where
  "BuildsDb_count_all rows = int (length rows)"

definition age_key :: "Build \<Rightarrow> int \<times> string" where
  "age_key b = (last_transition_time b, name b)"

definition BuildsDb_to_initialize :: "BuildsDb \<Rightarrow> int \<Rightarrow> Build list" where
  "BuildsDb_to_initialize rows limit =
     take (nat limit) (filter (\<lambda>b. init_status b = BuildInitStatus_todo) rows)"

definition BuildsDb_oldest_started :: "BuildsDb \<Rightarrow> int \<Rightarrow> Build list" where
  "BuildsDb_oldest_started rows limit =
     take (nat limit) (sort_key age_key (filter (\<lambda>b. status b = BuildStatus_started) rows))"

definition BuildsDb_oldest_stopped :: "BuildsDb \<Rightarrow> int \<Rightarrow> Build list" where
  "BuildsDb_oldest_stopped rows limit =
     take (nat limit) (sort_key age_key (filter (\<lambda>b. status b = BuildStatus_stopped) rows))"

text \<open>The mutations the deployment watcher applies to the database, as data.\<close>

datatype mutation = Add Build | Remove string

fun mutate :: "BuildsDb \<Rightarrow> mutation \<Rightarrow> BuildsDb" where
  "mutate rows (Add b) = BuildsDb_add rows b"
| "mutate rows (Remove n) = BuildsDb_remove rows n"

subsection \<open>Settings, effects and outcomes\<close>

text \<open>The three limits controller.py reads from \<open>settings\<close> (settings.py).\<close>

record settings =
  max_started :: int
  max_initializing :: int
  max_deployed :: int

text \<open>
  The calls the controller makes on builds: \<open>Build.deploy\<close> (a class method, given the
  commit identity) and the methods of a build.
\<close>

datatype action =
  Deploy string string "int option" string
  | Start Build
  | Stop Build
  | Undeploy Build
  | Initialize Build
  | On_initialize_started Build
  | On_initialize_succeeded Build
  | On_initialize_failed Build
  | On_cleanup_started Build
  | On_cleanup_succeeded Build
  | On_cleanup_failed Build

datatype loop_name = Deployment_watcher | Job_watcher | Initializer | Stopper | Undeployer

text \<open>
  The log records, with the values their messages are formatted from:
  the debug lines of the two watchers, the error line for an unknown event type,
  the info lines of the three schedulers (current count, limit, number selected),
  and the lines of \<open>start\<close>, \<open>stop\<close> and the supervisor.
\<close>

datatype log =
  Debug_deployment string string string
  | Debug_job string string string string
  | Error_unexpected_event_type string
  | Info_initializing int int nat
  | Info_started int int nat
  | Info_deployed int int nat
  | Info_starting_tasks
  | Info_stopping_tasks
  | Info_restarting loop_name
  | Exception_unhandled loop_name nat

datatype effect =
  Call action
  | From_name string
  | Log log
  | Wakeup
  | Wait_wakeup nat
  | Sleep nat
  | Cancel_task nat
  | Gather "nat list"

text \<open>
  How an awaited call or a whole asynchronous function ends: it completes, it raises an
  \<open>Exception\<close>, it is cancelled (\<open>CancelledError\<close>, which \<open>except Exception\<close> does not
  catch), or it is still waiting where the observation stops.
\<close>

datatype outcome = Done | Raised | Cancelled | Suspended

fun is_call :: "effect \<Rightarrow> bool" where
  "is_call (Call a) = True"
| "is_call e = False"

subsection \<open>The controller object\<close>

text \<open>
  The attributes of a \<open>Controller\<close>: \<open>db\<close>, the task handles \<open>_tasks\<close>, and the
  attribute \<open>_task\<close>, which does not exist until \<open>stop\<close> assigns it. A task handle is
  the index of the task in the table of the tasks created so far.
  \<open>_wakeup_event\<close> is set and cleared at once by \<open>_wakeup\<close>, so it carries no state
  between calls: \<open>_wakeup\<close> is the effect \<open>Wakeup\<close>, \<open>_sleep\<close> the effect
  \<open>Wait_wakeup 10\<close>.
\<close>

record controller =
  db :: BuildsDb
  tasks :: "nat list"
  task_attr :: "nat list option"

definition reset :: "controller \<Rightarrow> controller" where
  "reset c = c\<lparr>db := BuildsDb_empty\<rparr>"

definition Controller_init :: controller where
  "Controller_init = reset \<lparr>db = [], tasks = [], task_attr = None\<rparr>"

definition started :: "controller \<Rightarrow> int" where
  "started c = BuildsDb_count_by_status (db c) BuildStatus_started"

definition initializing :: "controller \<Rightarrow> int" where
  "initializing c = BuildsDb_count_by_init_status (db c) BuildInitStatus_started"

definition deployed :: "controller \<Rightarrow> int" where
  "deployed c = BuildsDb_count_all (db c)"

text \<open>
  What a task finds when it resumes from an \<open>await\<close>: the database as the deployment
  watcher has left it by then, and the orchestrator, which decides how the point lookup
  \<open>Build.from_name\<close> ends and what it returns when it completes (a build or \<open>None\<close>),
  and how each call on a build ends.
\<close>

record world =
  db_now :: BuildsDb
  from_name :: "string \<Rightarrow> outcome \<times> Build option"
  call :: "action \<Rightarrow> outcome"

text \<open>What an \<open>await\<close> gives back to the loop that waits: a value, an exception or a cancellation.\<close>

datatype 'a await = Resumed 'a | Throws | Cancels

subsection \<open>deploy_or_delay_start\<close>

definition deploy_or_delay_start ::
  "world \<Rightarrow> controller \<Rightarrow> string \<Rightarrow> string \<Rightarrow> int option \<Rightarrow> string
    \<Rightarrow> outcome \<times> controller \<times> effect list" where
  "deploy_or_delay_start w c r tb p gc =
     (case BuildsDb_get_for_commit (db c) r tb p gc of
        Some build \<Rightarrow> (call w (Start build), c, [Call (Start build)])
      | None \<Rightarrow> (call w (Deploy r tb p gc), c, [Call (Deploy r tb p gc)]))"

subsection \<open>The schedulers\<close>

text \<open>\<open>for build in builds: await build.act()\<close>: the loop stops at the first call that does not complete.\<close>

fun for_each_build ::
  "(action \<Rightarrow> outcome) \<Rightarrow> (Build \<Rightarrow> action) \<Rightarrow> Build list \<Rightarrow> outcome \<times> effect list" where
  "for_each_build api act [] = (Done, [])"
| "for_each_build api act (b # bs) =
     (case api (act b) of
        Done \<Rightarrow> (case for_each_build api act bs of (r, es) \<Rightarrow> (r, Call (act b) # es))
      | r \<Rightarrow> (r, [Call (act b)]))"

text \<open>
  One pass through the body of each scheduler's \<open>while True\<close>, after \<open>_sleep\<close> has
  returned; \<open>Done\<close> is the way back to \<open>_sleep\<close> (by \<open>continue\<close> or at the end of the body).
\<close>

definition initializer_cycle ::
  "settings \<Rightarrow> world \<Rightarrow> controller \<Rightarrow> outcome \<times> controller \<times> effect list" where
  "initializer_cycle s w c =
     (let can_initialize = max_initializing s - initializing c in
      if can_initialize \<le> 0 then (Done, c, [])
      else
        let to_initialize = BuildsDb_to_initialize (db c) can_initialize in
        if to_initialize = [] then (Done, c, [])
        else
          (case for_each_build (call w) Initialize to_initialize of
             (r, es) \<Rightarrow>
               (r, c, Log (Info_initializing (initializing c) (max_initializing s)
                             (length to_initialize)) # es)))"

definition stopper_cycle ::
  "settings \<Rightarrow> world \<Rightarrow> controller \<Rightarrow> outcome \<times> controller \<times> effect list" where
  "stopper_cycle s w c =
     (let can_stop = started c - max_started s in
      if can_stop \<le> 0 then (Done, c, [])
      else
        let to_stop = BuildsDb_oldest_started (db c) can_stop in
        if to_stop = [] then (Done, c, [])
        else
          (case for_each_build (call w) Stop to_stop of
             (r, es) \<Rightarrow>
               (r, c, Log (Info_started (started c) (max_started s) (length to_stop)) # es)))"

definition undeployer_cycle ::
  "settings \<Rightarrow> world \<Rightarrow> controller \<Rightarrow> outcome \<times> controller \<times> effect list" where
  "undeployer_cycle s w c =
     (let can_undeploy = deployed c - max_deployed s in
      if can_undeploy \<le> 0 then (Done, c, [])
      else
        let to_undeploy = BuildsDb_oldest_stopped (db c) can_undeploy in
        if to_undeploy = [] then (Done, c, [])
        else
          (case for_each_build (call w) Undeploy to_undeploy of
             (r, es) \<Rightarrow>
               (r, c, Log (Info_deployed (deployed c) (max_deployed s) (length to_undeploy))
                        # es)))"

text \<open>
  The \<open>while True\<close> of a scheduler over the wake-ups of one run: each \<open>await self._sleep()\<close>
  resumes in some world (or is cancelled there), the body runs on the database of that
  moment, and the loop ends only when something inside it does not complete. When the
  wake-ups observed are used up the scheduler is asleep.
\<close>

fun scheduler ::
  "(world \<Rightarrow> controller \<Rightarrow> outcome \<times> controller \<times> effect list)
    \<Rightarrow> world await list \<Rightarrow> controller \<Rightarrow> outcome \<times> controller \<times> effect list" where
  "scheduler cycle [] c = (Suspended, c, [Wait_wakeup 10])"
| "scheduler cycle (Throws # ws) c = (Raised, c, [Wait_wakeup 10])"
| "scheduler cycle (Cancels # ws) c = (Cancelled, c, [Wait_wakeup 10])"
| "scheduler cycle (Resumed w # ws) c =
     (case cycle w (c\<lparr>db := db_now w\<rparr>) of
        (Done, c', es) \<Rightarrow>
          (case scheduler cycle ws c' of (r, c'', es') \<Rightarrow> (r, c'', Wait_wakeup 10 # es @ es'))
      | (r, c', es) \<Rightarrow> (r, c', Wait_wakeup 10 # es))"

definition initializer ::
  "settings \<Rightarrow> world await list \<Rightarrow> controller \<Rightarrow> outcome \<times> controller \<times> effect list" where
  "initializer s = scheduler (initializer_cycle s)"

definition stopper ::
  "settings \<Rightarrow> world await list \<Rightarrow> controller \<Rightarrow> outcome \<times> controller \<times> effect list" where
  "stopper s = scheduler (stopper_cycle s)"

definition undeployer ::
  "settings \<Rightarrow> world await list \<Rightarrow> controller \<Rightarrow> outcome \<times> controller \<times> effect list" where
  "undeployer s = scheduler (undeployer_cycle s)"

subsection \<open>Orchestrator resources (k8s.py)\<close>

text \<open>
  What the controller reads of the resources the watch streams of k8s.py deliver:
  \<open>kind\<close>, \<open>metadata.labels\<close>, and of a job the truth values that
  \<open>if job.status.succeeded\<close> and \<open>elif job.status.failed\<close> test.
  \<open>metadata.labels\<close> is a dictionary, or \<open>None\<close> for a resource that has no labels
  at all; the watchers call \<open>.get\<close> on it unguarded, which raises \<open>AttributeError\<close>
  on \<open>None\<close>. Whatever else a deployment carries stays in the extension of the
  record, for \<open>Build.from_deployment\<close> (models.py, not part of the sources), which the
  deployment watcher takes as a parameter.
\<close>

record resource =
  kind :: string
  labels :: "(string \<rightharpoonup> string) option"

record job = resource +
  succeeded :: bool
  failed :: bool

subsection \<open>The deployment watcher\<close>

text \<open>
  The body of the \<open>async for\<close> of \<open>deployment_watcher\<close>, for one event of the stream;
  \<open>Done\<close> is the way on to the next event, \<open>Raised\<close> the \<open>AttributeError\<close> of
  \<open>deployment.metadata.labels.get\<close> on a resource whose labels are \<open>None\<close>.
\<close>

definition deployment_event ::
  "('a resource_scheme \<Rightarrow> Build) \<Rightarrow> string \<Rightarrow> 'a resource_scheme \<Rightarrow> controller
    \<Rightarrow> outcome \<times> controller \<times> effect list" where
  "deployment_event from_deployment event_type deployment c =
     (case labels deployment of
        None \<Rightarrow> (Raised, c, [])
      | Some dict \<Rightarrow>
          (case dict ''runboat/build'' of
             None \<Rightarrow> (Done, c, [])
           | Some build_name \<Rightarrow>
               if build_name = [] then (Done, c, [])
               else if event_type = ''ADDED'' \<or> event_type = ''MODIFIED'' then
                 (Done, c\<lparr>db := BuildsDb_add (db c) (from_deployment deployment)\<rparr>,
                  [Log (Debug_deployment event_type (kind deployment) build_name), Wakeup])
               else if event_type = ''DELETED'' then
                 (Done, c\<lparr>db := BuildsDb_remove (db c) build_name\<rparr>,
                  [Log (Debug_deployment event_type (kind deployment) build_name), Wakeup])
               else
                 (Done, c,
                  [Log (Debug_deployment event_type (kind deployment) build_name),
                   Log (Error_unexpected_event_type event_type), Wakeup])))"

text \<open>
  The \<open>async for\<close> over one watch session: the events the stream yields, each of which
  may instead be an exception or a cancellation that arrives while the watcher waits;
  an event whose body raises ends the function there; when the stream is used up the
  loop, and with it the function, returns.
\<close>

fun deployment_events ::
  "('a resource_scheme \<Rightarrow> Build) \<Rightarrow> (string \<times> 'a resource_scheme) await list \<Rightarrow> controller
    \<Rightarrow> outcome \<times> controller \<times> effect list" where
  "deployment_events from_deployment [] c = (Done, c, [])"
| "deployment_events from_deployment (Throws # evs) c = (Raised, c, [])"
| "deployment_events from_deployment (Cancels # evs) c = (Cancelled, c, [])"
| "deployment_events from_deployment (Resumed (event_type, deployment) # evs) c =
     (case deployment_event from_deployment event_type deployment c of
        (Done, c', es) \<Rightarrow>
          (case deployment_events from_deployment evs c' of
             (r, c'', es') \<Rightarrow> (r, c'', es @ es'))
      | (r, c', es) \<Rightarrow> (r, c', es))"

definition deployment_watcher ::
  "('a resource_scheme \<Rightarrow> Build) \<Rightarrow> (string \<times> 'a resource_scheme) await list \<Rightarrow> controller
    \<Rightarrow> outcome \<times> controller \<times> effect list" where
  "deployment_watcher from_deployment evs c = deployment_events from_deployment evs (reset c)"

subsection \<open>The job watcher\<close>

text \<open>
  The owning build of a job event: \<open>self.db.get(build_name)\<close>, and when that finds
  nothing \<open>await Build.from_name(build_name)\<close>.
\<close>

definition resolve_build ::
  "world \<Rightarrow> controller \<Rightarrow> string \<Rightarrow> (outcome \<times> Build option) \<times> effect list" where
  "resolve_build w c build_name =
     (case BuildsDb_get (db c) build_name of
        Some build \<Rightarrow> ((Done, Some build), [])
      | None \<Rightarrow> (from_name w build_name, [From_name build_name]))"

definition invoke :: "world \<Rightarrow> action \<Rightarrow> outcome \<times> effect list" where
  "invoke w a = (call w a, [Call a])"

text \<open>The two \<open>if job_kind == ...\<close> statements, one after the other.\<close>

definition dispatch :: "world \<Rightarrow> string \<Rightarrow> 'a job_scheme \<Rightarrow> Build \<Rightarrow> outcome \<times> effect list" where
  "dispatch w job_kind job build =
     (case (if job_kind = ''initialize'' then
              (if succeeded job then invoke w (On_initialize_succeeded build)
               else if failed job then invoke w (On_initialize_failed build)
               else invoke w (On_initialize_started build))
            else (Done, [])) of
        (Done, es) \<Rightarrow>
          (case (if job_kind = ''cleanup'' then
                   (if succeeded job then invoke w (On_cleanup_succeeded build)
                    else if failed job then invoke w (On_cleanup_failed build)
                    else invoke w (On_cleanup_started build))
                 else (Done, [])) of
             (r, es') \<Rightarrow> (r, es @ es'))
      | (r, es) \<Rightarrow> (r, es))"

text \<open>
  The body of the \<open>async for\<close> of \<open>job_watcher\<close>, for one event of the stream; \<open>Done\<close>
  is the way on to the next event, and \<open>job.metadata.labels.get\<close> raises
  \<open>AttributeError\<close> when the labels are \<open>None\<close>.
\<close>

definition job_event ::
  "world \<Rightarrow> string \<Rightarrow> 'a job_scheme \<Rightarrow> controller \<Rightarrow> outcome \<times> controller \<times> effect list" where
  "job_event w event_type job c =
     (case labels job of
        None \<Rightarrow> (Raised, c, [])
      | Some dict \<Rightarrow>
     (case dict ''runboat/build'' of
        None \<Rightarrow> (Done, c, [])
      | Some build_name \<Rightarrow>
          if build_name = [] then (Done, c, [])
          else
            (case dict ''runboat/job-kind'' of
               None \<Rightarrow> (Done, c, [])
             | Some job_kind \<Rightarrow>
                 if job_kind \<noteq> ''initialize'' \<and> job_kind \<noteq> ''cleanup'' then (Done, c, [])
                 else if event_type = ''ADDED'' \<or> event_type = ''MODIFIED'' then
                   (case resolve_build w c build_name of
                      ((r, found), es) \<Rightarrow>
                        if r \<noteq> Done then
                          (r, c, Log (Debug_job event_type (kind job) job_kind build_name) # es)
                        else
                          (case found of
                             None \<Rightarrow>
                               (Done, c,
                                Log (Debug_job event_type (kind job) job_kind build_name) # es)
                           | Some build \<Rightarrow>
                               (case dispatch w job_kind job build of
                                  (r', es') \<Rightarrow>
                                    (r', c,
                                     Log (Debug_job event_type (kind job) job_kind build_name)
                                       # es @ es'))))
                 else if event_type = ''DELETED'' then
                   (Done, c, [Log (Debug_job event_type (kind job) job_kind build_name)])
                 else
                   (Done, c, [Log (Debug_job event_type (kind job) job_kind build_name),
                              Log (Error_unexpected_event_type event_type)]))))"

text \<open>
  The \<open>async for\<close> over one watch session of jobs. Each event comes with the world the
  watcher finds when it resumes; it reads the database of that moment.
\<close>

fun job_watcher ::
  "(world \<times> string \<times> 'a job_scheme) await list \<Rightarrow> controller
    \<Rightarrow> outcome \<times> controller \<times> effect list" where
  "job_watcher [] c = (Done, c, [])"
| "job_watcher (Throws # evs) c = (Raised, c, [])"
| "job_watcher (Cancels # evs) c = (Cancelled, c, [])"
| "job_watcher (Resumed (w, event_type, job) # evs) c =
     (case job_event w event_type job (c\<lparr>db := db_now w\<rparr>) of
        (Done, c', es) \<Rightarrow>
          (case job_watcher evs c' of (r, c'', es') \<Rightarrow> (r, c'', es @ es'))
      | (r, c', es) \<Rightarrow> (r, c', es))"

subsection \<open>The supervisor, start and stop\<close>

text \<open>
  \<open>walking_dead(func)\<close>, the closure of \<open>start\<close>: one element of the list for each
  pass through its \<open>while True\<close>, holding what that run of \<open>func\<close> is given and how
  \<open>asyncio.sleep(delay)\<close> ends should the run raise. When the list is used up the
  observation stops.
\<close>

record 'i run =
  given :: 'i
  backoff :: outcome

fun walking_dead ::
  "loop_name \<Rightarrow> ('i \<Rightarrow> controller \<Rightarrow> outcome \<times> controller \<times> effect list) \<Rightarrow> 'i run list
    \<Rightarrow> controller \<Rightarrow> outcome \<times> controller \<times> effect list" where
  "walking_dead fname func [] c = (Suspended, c, [])"
| "walking_dead fname func (r # rs) c =
     (case func (given r) c of
        (Done, c', es) \<Rightarrow>
          (case walking_dead fname func rs c' of
             (r', c'', es') \<Rightarrow> (r', c'', Log (Info_restarting fname) # es @ es'))
      | (Raised, c', es) \<Rightarrow>
          (case backoff r of
             Done \<Rightarrow>
               (case walking_dead fname func rs c' of
                  (r', c'', es') \<Rightarrow>
                    (r', c'', Log (Info_restarting fname) # es
                               @ [Log (Exception_unhandled fname 5), Sleep 5] @ es'))
           | b \<Rightarrow>
               (b, c', Log (Info_restarting fname) # es
                        @ [Log (Exception_unhandled fname 5), Sleep 5]))
      | (r', c', es) \<Rightarrow> (r', c', Log (Info_restarting fname) # es))"

text \<open>
  The tasks created so far, in creation order; \<open>asyncio.create_task\<close> adds one and
  returns its handle, \<open>task.cancel()\<close> requests its cancellation.
\<close>

record task =
  task_loop :: loop_name
  cancel_requested :: bool

definition create_task :: "loop_name \<Rightarrow> controller \<times> task list \<Rightarrow> controller \<times> task list" where
  "create_task f ct =
     (case ct of (c, tbl) \<Rightarrow>
        (c\<lparr>tasks := tasks c @ [length tbl]\<rparr>,
         tbl @ [\<lparr>task_loop = f, cancel_requested = False\<rparr>]))"

definition start :: "controller \<times> task list \<Rightarrow> controller \<times> task list \<times> effect list" where
  "start ct =
     (case fold create_task [Deployment_watcher, Job_watcher, Initializer, Stopper, Undeployer] ct
      of (c, tbl) \<Rightarrow> (c, tbl, [Log Info_starting_tasks]))"

definition cancel :: "nat \<Rightarrow> task list \<Rightarrow> task list" where
  "cancel h tbl = (if h < length tbl then tbl[h := (tbl ! h)\<lparr>cancel_requested := True\<rparr>] else tbl)"

definition stop :: "controller \<times> task list \<Rightarrow> controller \<times> task list \<times> effect list" where
  "stop ct =
     (case ct of (c, tbl) \<Rightarrow>
        (c\<lparr>task_attr := Some []\<rparr>,
         fold cancel (tasks c) tbl,
         Log Info_stopping_tasks # map Cancel_task (tasks c) @ [Gather (tasks c)]))"

subsection \<open>Example builds, settings and controllers\<close>

definition example_build :: "string \<Rightarrow> BuildStatus \<Rightarrow> BuildInitStatus \<Rightarrow> int \<Rightarrow> Build" where
  "example_build n st ist t =
     \<lparr>name = n, repo = ''org/app'', target_branch = ''main'', pr = None, git_commit = n,
      status = st, init_status = ist, last_transition_time = t\<rparr>"

definition quiet_world :: world where
  "quiet_world = \<lparr>db_now = [], from_name = (\<lambda>n. (Done, None)), call = (\<lambda>a. Done)\<rparr>"

definition example_settings :: settings where
  "example_settings = \<lparr>max_started = 3, max_initializing = 1, max_deployed = 10\<rparr>"

definition one_started :: controller where
  "one_started =
     \<lparr>db = [example_build ''a'' BuildStatus_started BuildInitStatus_succeeded 5],
      tasks = [], task_attr = None\<rparr>"

definition mixed_db :: BuildsDb where
  "mixed_db =
     [example_build ''a'' BuildStatus_deploying BuildInitStatus_todo 1,
      example_build ''b'' BuildStatus_deploying BuildInitStatus_todo 2,
      example_build ''c'' BuildStatus_deploying BuildInitStatus_todo 3,
      example_build ''d'' BuildStatus_started BuildInitStatus_succeeded 9,
      example_build ''e'' BuildStatus_started BuildInitStatus_succeeded 4,
      example_build ''f'' BuildStatus_stopped BuildInitStatus_succeeded 8,
      example_build ''g'' BuildStatus_stopped BuildInitStatus_succeeded 6]"

definition crowded :: controller where
  "crowded = \<lparr>db = mixed_db, tasks = [], task_attr = None\<rparr>"

definition tight_settings :: settings where
  "tight_settings = \<lparr>max_started = 1, max_initializing = 2, max_deployed = 6\<rparr>"

definition saturated_db :: BuildsDb where
  "saturated_db =
     [example_build ''s1'' BuildStatus_started BuildInitStatus_succeeded 1,
      example_build ''s2'' BuildStatus_started BuildInitStatus_succeeded 2,
      example_build ''s3'' BuildStatus_started BuildInitStatus_succeeded 3,
      example_build ''p1'' BuildStatus_stopped BuildInitStatus_succeeded 4,
      example_build ''p2'' BuildStatus_stopped BuildInitStatus_succeeded 5,
      example_build ''p3'' BuildStatus_stopped BuildInitStatus_succeeded 6,
      example_build ''p4'' BuildStatus_stopped BuildInitStatus_succeeded 7,
      example_build ''p5'' BuildStatus_stopped BuildInitStatus_succeeded 8,
      example_build ''i1'' BuildStatus_deploying BuildInitStatus_started 9]"

definition saturated :: controller where
  "saturated = \<lparr>db = saturated_db, tasks = [], task_attr = None\<rparr>"

definition only_started :: controller where
  "only_started =
     \<lparr>db = [example_build ''d'' BuildStatus_started BuildInitStatus_succeeded 9,
            example_build ''e'' BuildStatus_started BuildInitStatus_succeeded 4],
      tasks = [], task_attr = None\<rparr>"

definition roomy_settings :: settings where
  "roomy_settings = \<lparr>max_started = 3, max_initializing = 1, max_deployed = 1\<rparr>"

definition label_or_empty :: "'a resource_scheme \<Rightarrow> string \<Rightarrow> string" where
  "label_or_empty d k =
     (case labels d of
        None \<Rightarrow> []
      | Some dict \<Rightarrow> (case dict k of Some v \<Rightarrow> v | None \<Rightarrow> []))"

definition labelled_build :: "'a resource_scheme \<Rightarrow> Build" where
  "labelled_build d =
     \<lparr>name = label_or_empty d ''runboat/build'',
      repo = label_or_empty d ''runboat/repo'',
      target_branch = label_or_empty d ''runboat/target-branch'',
      pr = None,
      git_commit = label_or_empty d ''runboat/git-commit'',
      status = BuildStatus_stopped, init_status = BuildInitStatus_todo,
      last_transition_time = 0\<rparr>"

definition app_labels :: "string \<rightharpoonup> string" where
  "app_labels =
     map_of [(''runboat/build'', ''b7''), (''runboat/repo'', ''org/app''),
             (''runboat/target-branch'', ''main''), (''runboat/git-commit'', ''c0ffee'')]"

definition app_deployment :: resource where
  "app_deployment = \<lparr>kind = ''Deployment'', labels = Some app_labels\<rparr>"

definition blank_labels :: "string \<rightharpoonup> string" where
  "blank_labels = map_of [(''runboat/build'', [])]"

definition blank_deployment :: resource where
  "blank_deployment = \<lparr>kind = ''Deployment'', labels = Some blank_labels\<rparr>"

definition bare_deployment :: resource where
  "bare_deployment = \<lparr>kind = ''Deployment'', labels = None\<rparr>"

definition bare_job :: job where
  "bare_job = \<lparr>kind = ''Job'', labels = None, succeeded = True, failed = False\<rparr>"

definition other_labels :: "string \<rightharpoonup> string" where
  "other_labels = map_of [(''app'', ''proxy'')]"

definition other_deployment :: resource where
  "other_deployment = \<lparr>kind = ''Deployment'', labels = Some other_labels\<rparr>"

definition failing_world :: world where
  "failing_world = \<lparr>db_now = mixed_db, from_name = (\<lambda>n. (Done, None)), call = (\<lambda>a. Raised)\<rparr>"

definition broken_watch :: "(string \<times> resource) await list run" where
  "broken_watch = \<lparr>given = [Resumed (''ADDED'', app_deployment), Throws], backoff = Done\<rparr>"

definition silent_watch :: "(string \<times> resource) await list run" where
  "silent_watch = \<lparr>given = [], backoff = Done\<rparr>"

definition failing_wake :: "world await list run" where
  "failing_wake = \<lparr>given = [Resumed failing_world], backoff = Done\<rparr>"

definition no_wake :: "world await list run" where
  "no_wake = \<lparr>given = [], backoff = Done\<rparr>"

definition job_labels :: "string \<Rightarrow> string \<rightharpoonup> string" where
  "job_labels job_kind = map_of [(''runboat/build'', ''b7''), (''runboat/job-kind'', job_kind)]"

definition example_job :: "string \<Rightarrow> bool \<Rightarrow> bool \<Rightarrow> job" where
  "example_job job_kind s f =
     \<lparr>kind = ''Job'', labels = Some (job_labels job_kind), succeeded = s, failed = f\<rparr>"

definition kind_only_labels :: "string \<rightharpoonup> string" where
  "kind_only_labels = map_of [(''runboat/job-kind'', ''initialize'')]"

definition unlabelled_job :: job where
  "unlabelled_job =
     \<lparr>kind = ''Job'', labels = Some kind_only_labels, succeeded = True, failed = False\<rparr>"

definition finding_world :: world where
  "finding_world =
     \<lparr>db_now = [],
      from_name = (\<lambda>n. (Done, Some (example_build n BuildStatus_started BuildInitStatus_started 0))),
      call = (\<lambda>a. Done)\<rparr>"

definition indexed :: controller where
  "indexed = \<lparr>db = [labelled_build app_deployment], tasks = [], task_attr = None\<rparr>"

definition example_mutations :: "mutation list" where
  "example_mutations =
     [Add (example_build ''a'' BuildStatus_deploying BuildInitStatus_started 1),
      Add (example_build ''b'' BuildStatus_started BuildInitStatus_succeeded 2),
      Add (example_build ''a'' BuildStatus_started BuildInitStatus_succeeded 3),
      Add (example_build ''c'' BuildStatus_deploying BuildInitStatus_started 4),
      Remove ''b'']"

definition second_fails :: world where
  "second_fails =
     \<lparr>db_now = [], from_name = (\<lambda>n. (Done, None)),
      call = (\<lambda>a. if a = Initialize (example_build ''b'' BuildStatus_deploying BuildInitStatus_todo 2)
                    then Raised else Done)\<rparr>"

definition wide_settings :: settings where
  "wide_settings = \<lparr>max_started = 1, max_initializing = 3, max_deployed = 6\<rparr>"

section \<open>Properties\<close>

subsection \<open>The loop over the selected builds\<close>

lemma for_each_build_exact:
  "for_each_build api act bs =
     ((case dropWhile (\<lambda>b. api (act b) = Done) bs of [] \<Rightarrow> Done | b # rest \<Rightarrow> api (act b)),
      map (\<lambda>b. Call (act b))
        (takeWhile (\<lambda>b. api (act b) = Done) bs
           @ take 1 (dropWhile (\<lambda>b. api (act b) = Done) bs)))"
proof (induction bs)
  case Nil
  then show ?case by simp
next
  case (Cons b bs)
  show ?case
  proof (cases "api (act b) = Done")
    case True
    then show ?thesis using Cons by simp
  next
    case False
    then show ?thesis by (cases "api (act b)") simp_all
  qed
qed

lemma for_each_build_calls_only:
  "filter is_call (snd (for_each_build api act bs)) = snd (for_each_build api act bs)"
  unfolding for_each_build_exact [of api act bs] by (simp add: filter_map comp_def)

lemma dropWhile_all: "\<forall>b \<in> set bs. P b \<Longrightarrow> dropWhile P bs = [] \<and> takeWhile P bs = bs"
  by (induction bs) simp_all

lemma initializer_cycle_runs:
  assumes "0 < max_initializing s - initializing c"
  shows "\<exists>pre. filter is_call pre = []
     \<and> initializer_cycle s w c =
         (fst (for_each_build (call w) Initialize
                 (BuildsDb_to_initialize (db c) (max_initializing s - initializing c))),
          c,
          pre @ snd (for_each_build (call w) Initialize
                 (BuildsDb_to_initialize (db c) (max_initializing s - initializing c))))"
proof (cases "BuildsDb_to_initialize (db c) (max_initializing s - initializing c) = []")
  case True
  then show ?thesis
    using assms by (intro exI [of _ "[]"]) (simp add: initializer_cycle_def Let_def)
next
  case False
  then show ?thesis
    using assms
    by (intro exI [of _ "[Log (Info_initializing (initializing c) (max_initializing s)
          (length (BuildsDb_to_initialize (db c) (max_initializing s - initializing c))))]"])
      (simp add: initializer_cycle_def Let_def split: prod.splits)
qed

lemma stopper_cycle_runs:
  assumes "0 < started c - max_started s"
  shows "\<exists>pre. filter is_call pre = []
     \<and> stopper_cycle s w c =
         (fst (for_each_build (call w) Stop
                 (BuildsDb_oldest_started (db c) (started c - max_started s))),
          c,
          pre @ snd (for_each_build (call w) Stop
                 (BuildsDb_oldest_started (db c) (started c - max_started s))))"
proof (cases "BuildsDb_oldest_started (db c) (started c - max_started s) = []")
  case True
  then show ?thesis
    using assms by (intro exI [of _ "[]"]) (simp add: stopper_cycle_def Let_def)
next
  case False
  then show ?thesis
    using assms
    by (intro exI [of _ "[Log (Info_started (started c) (max_started s)
          (length (BuildsDb_oldest_started (db c) (started c - max_started s))))]"])
      (simp add: stopper_cycle_def Let_def split: prod.splits)
qed

lemma undeployer_cycle_runs:
  assumes "0 < deployed c - max_deployed s"
  shows "\<exists>pre. filter is_call pre = []
     \<and> undeployer_cycle s w c =
         (fst (for_each_build (call w) Undeploy
                 (BuildsDb_oldest_stopped (db c) (deployed c - max_deployed s))),
          c,
          pre @ snd (for_each_build (call w) Undeploy
                 (BuildsDb_oldest_stopped (db c) (deployed c - max_deployed s))))"
proof (cases "BuildsDb_oldest_stopped (db c) (deployed c - max_deployed s) = []")
  case True
  then show ?thesis
    using assms by (intro exI [of _ "[]"]) (simp add: undeployer_cycle_def Let_def)
next
  case False
  then show ?thesis
    using assms
    by (intro exI [of _ "[Log (Info_deployed (deployed c) (max_deployed s)
          (length (BuildsDb_oldest_stopped (db c) (deployed c - max_deployed s))))]"])
      (simp add: undeployer_cycle_def Let_def split: prod.splits)
qed

lemma cycle_shape:
  assumes "filter is_call pre = []"
    and "res = (fst (for_each_build api act bs), c, pre @ snd (for_each_build api act bs))"
  shows "case res of
      (r, c', es) \<Rightarrow>
        c' = c
        \<and> filter is_call es =
            map (\<lambda>b. Call (act b))
              (takeWhile (\<lambda>b. api (act b) = Done) bs
                 @ take 1 (dropWhile (\<lambda>b. api (act b) = Done) bs))
        \<and> r = (case dropWhile (\<lambda>b. api (act b) = Done) bs of
                  [] \<Rightarrow> Done | b # rest \<Rightarrow> api (act b))
        \<and> ((\<forall>b \<in> set bs. api (act b) = Done) \<longrightarrow>
             r = Done \<and> filter is_call es = map (\<lambda>b. Call (act b)) bs)"
proof -
  obtain r es where fe: "for_each_build api act bs = (r, es)"
    by (cases "for_each_build api act bs")
  have exact: "r = (case dropWhile (\<lambda>b. api (act b) = Done) bs of
                  [] \<Rightarrow> Done | b # rest \<Rightarrow> api (act b))"
    "es = map (\<lambda>b. Call (act b))
              (takeWhile (\<lambda>b. api (act b) = Done) bs
                 @ take 1 (dropWhile (\<lambda>b. api (act b) = Done) bs))"
    using fe for_each_build_exact [of api act bs] by simp_all
  have calls: "filter is_call (pre @ es) = es"
    using assms(1) for_each_build_calls_only [of api act bs] fe by simp
  have all: "(\<forall>b \<in> set bs. api (act b) = Done) \<longrightarrow>
      r = Done \<and> es = map (\<lambda>b. Call (act b)) bs"
  proof
    assume "\<forall>b \<in> set bs. api (act b) = Done"
    then have dt: "dropWhile (\<lambda>b. api (act b) = Done) bs = []"
      "takeWhile (\<lambda>b. api (act b) = Done) bs = bs"
      using dropWhile_all [of bs "\<lambda>b. api (act b) = Done"] by simp_all
    show "r = Done \<and> es = map (\<lambda>b. Call (act b)) bs"
      unfolding exact dt by simp
  qed
  have res: "res = (r, c, pre @ es)"
    using assms(2) fe by simp
  show ?thesis
    unfolding res prod.case calls using exact all by blast
qed

lemma selection_lengths:
  "int (length (BuildsDb_to_initialize rows limit)) \<le> max 0 limit"
  "int (length (BuildsDb_oldest_started rows limit)) \<le> max 0 limit"
  "int (length (BuildsDb_oldest_stopped rows limit)) \<le> max 0 limit"
  by (simp_all add: BuildsDb_to_initialize_def BuildsDb_oldest_started_def
        BuildsDb_oldest_stopped_def)

lemma crowded_counts:
  "initializing crowded = 0" "started crowded = 2" "deployed crowded = 7"
  by (simp_all add: crowded_def mixed_db_def example_build_def initializing_def started_def
        deployed_def BuildsDb_count_by_init_status_def BuildsDb_count_by_status_def
        BuildsDb_count_all_def)

lemma crowded_selections:
  "BuildsDb_to_initialize (db crowded) 2 =
     [example_build ''a'' BuildStatus_deploying BuildInitStatus_todo 1,
      example_build ''b'' BuildStatus_deploying BuildInitStatus_todo 2]"
  "BuildsDb_to_initialize (db crowded) 3 =
     [example_build ''a'' BuildStatus_deploying BuildInitStatus_todo 1,
      example_build ''b'' BuildStatus_deploying BuildInitStatus_todo 2,
      example_build ''c'' BuildStatus_deploying BuildInitStatus_todo 3]"
  "BuildsDb_oldest_started (db crowded) 1 =
     [example_build ''e'' BuildStatus_started BuildInitStatus_succeeded 4]"
  "BuildsDb_oldest_stopped (db crowded) 1 =
     [example_build ''g'' BuildStatus_stopped BuildInitStatus_succeeded 6]"
  by (simp_all add: crowded_def mixed_db_def example_build_def BuildsDb_to_initialize_def
        BuildsDb_oldest_started_def BuildsDb_oldest_stopped_def age_key_def)

subsection \<open>Capacity of the schedulers\<close>

text \<open>
  C1 (as amended). In a wake cycle the initializer computes
  \<open>max_initializing - initializing\<close>, the stopper \<open>started - max_started\<close> and the
  undeployer \<open>deployed - max_deployed\<close>: room left for the initializer, excess over the
  limit for the other two. When that number is positive the loop asks the matching
  query (\<open>to_initialize\<close>, \<open>oldest_started\<close>, \<open>oldest_stopped\<close>) for at most that
  many builds and calls \<open>initialize\<close>, \<open>stop\<close> or \<open>undeploy\<close> on them in the order of
  the selection, within the same cycle and without changing the controller. The calls
  made are exactly those on the builds whose calls complete, in order, followed by the
  first call that does not complete, if there is one; the cycle ends as that call does,
  and normally, with a call on every selected build, when every call completes.
\<close>

theorem scheduler_cycle_acts_on_selection:
  "(0 < max_initializing s - initializing c \<longrightarrow>
      (let bs = BuildsDb_to_initialize (db c) (max_initializing s - initializing c) in
       int (length bs) \<le> max_initializing s - initializing c
       \<and> (case initializer_cycle s w c of
            (r, c', es) \<Rightarrow>
              c' = c
              \<and> filter is_call es =
                  map (\<lambda>b. Call (Initialize b))
                    (takeWhile (\<lambda>b. call w (Initialize b) = Done) bs
                       @ take 1 (dropWhile (\<lambda>b. call w (Initialize b) = Done) bs))
              \<and> r = (case dropWhile (\<lambda>b. call w (Initialize b) = Done) bs of
                        [] \<Rightarrow> Done | b # rest \<Rightarrow> call w (Initialize b))
              \<and> ((\<forall>b \<in> set bs. call w (Initialize b) = Done) \<longrightarrow>
                   r = Done \<and> filter is_call es = map (\<lambda>b. Call (Initialize b)) bs))))
   \<and> (0 < started c - max_started s \<longrightarrow>
      (let bs = BuildsDb_oldest_started (db c) (started c - max_started s) in
       int (length bs) \<le> started c - max_started s
       \<and> (case stopper_cycle s w c of
            (r, c', es) \<Rightarrow>
              c' = c
              \<and> filter is_call es =
                  map (\<lambda>b. Call (Stop b))
                    (takeWhile (\<lambda>b. call w (Stop b) = Done) bs
                       @ take 1 (dropWhile (\<lambda>b. call w (Stop b) = Done) bs))
              \<and> r = (case dropWhile (\<lambda>b. call w (Stop b) = Done) bs of
                        [] \<Rightarrow> Done | b # rest \<Rightarrow> call w (Stop b))
              \<and> ((\<forall>b \<in> set bs. call w (Stop b) = Done) \<longrightarrow>
                   r = Done \<and> filter is_call es = map (\<lambda>b. Call (Stop b)) bs))))
   \<and> (0 < deployed c - max_deployed s \<longrightarrow>
      (let bs = BuildsDb_oldest_stopped (db c) (deployed c - max_deployed s) in
       int (length bs) \<le> deployed c - max_deployed s
       \<and> (case undeployer_cycle s w c of
            (r, c', es) \<Rightarrow>
              c' = c
              \<and> filter is_call es =
                  map (\<lambda>b. Call (Undeploy b))
                    (takeWhile (\<lambda>b. call w (Undeploy b) = Done) bs
                       @ take 1 (dropWhile (\<lambda>b. call w (Undeploy b) = Done) bs))
              \<and> r = (case dropWhile (\<lambda>b. call w (Undeploy b) = Done) bs of
                        [] \<Rightarrow> Done | b # rest \<Rightarrow> call w (Undeploy b))
              \<and> ((\<forall>b \<in> set bs. call w (Undeploy b) = Done) \<longrightarrow>
                   r = Done \<and> filter is_call es = map (\<lambda>b. Call (Undeploy b)) bs))))"
proof (intro conjI impI)
  assume pos: "0 < max_initializing s - initializing c"
  obtain pre where pre: "filter is_call pre = []"
    "initializer_cycle s w c =
       (fst (for_each_build (call w) Initialize (BuildsDb_to_initialize (db c) (max_initializing s - initializing c))), c,
        pre @ snd (for_each_build (call w) Initialize (BuildsDb_to_initialize (db c) (max_initializing s - initializing c))))"
    using initializer_cycle_runs [OF pos, of w] by blast
  show "let bs = BuildsDb_to_initialize (db c) (max_initializing s - initializing c) in
       int (length bs) \<le> max_initializing s - initializing c
       \<and> (case initializer_cycle s w c of
            (r, c', es) \<Rightarrow>
              c' = c
              \<and> filter is_call es =
                  map (\<lambda>b. Call (Initialize b))
                    (takeWhile (\<lambda>b. call w (Initialize b) = Done) bs
                       @ take 1 (dropWhile (\<lambda>b. call w (Initialize b) = Done) bs))
              \<and> r = (case dropWhile (\<lambda>b. call w (Initialize b) = Done) bs of
                        [] \<Rightarrow> Done | b # rest \<Rightarrow> call w (Initialize b))
              \<and> ((\<forall>b \<in> set bs. call w (Initialize b) = Done) \<longrightarrow>
                   r = Done \<and> filter is_call es = map (\<lambda>b. Call (Initialize b)) bs))"
    unfolding Let_def
    using cycle_shape [OF pre(1) pre(2)] selection_lengths(1) [of "db c" "max_initializing s - initializing c"] pos
    by simp
next
  assume pos: "0 < started c - max_started s"
  obtain pre where pre: "filter is_call pre = []"
    "stopper_cycle s w c =
       (fst (for_each_build (call w) Stop (BuildsDb_oldest_started (db c) (started c - max_started s))), c,
        pre @ snd (for_each_build (call w) Stop (BuildsDb_oldest_started (db c) (started c - max_started s))))"
    using stopper_cycle_runs [OF pos, of w] by blast
  show "let bs = BuildsDb_oldest_started (db c) (started c - max_started s) in
       int (length bs) \<le> started c - max_started s
       \<and> (case stopper_cycle s w c of
            (r, c', es) \<Rightarrow>
              c' = c
              \<and> filter is_call es =
                  map (\<lambda>b. Call (Stop b))
                    (takeWhile (\<lambda>b. call w (Stop b) = Done) bs
                       @ take 1 (dropWhile (\<lambda>b. call w (Stop b) = Done) bs))
              \<and> r = (case dropWhile (\<lambda>b. call w (Stop b) = Done) bs of
                        [] \<Rightarrow> Done | b # rest \<Rightarrow> call w (Stop b))
              \<and> ((\<forall>b \<in> set bs. call w (Stop b) = Done) \<longrightarrow>
                   r = Done \<and> filter is_call es = map (\<lambda>b. Call (Stop b)) bs))"
    unfolding Let_def
    using cycle_shape [OF pre(1) pre(2)] selection_lengths(2) [of "db c" "started c - max_started s"] pos
    by simp
next
  assume pos: "0 < deployed c - max_deployed s"
  obtain pre where pre: "filter is_call pre = []"
    "undeployer_cycle s w c =
       (fst (for_each_build (call w) Undeploy (BuildsDb_oldest_stopped (db c) (deployed c - max_deployed s))), c,
        pre @ snd (for_each_build (call w) Undeploy (BuildsDb_oldest_stopped (db c) (deployed c - max_deployed s))))"
    using undeployer_cycle_runs [OF pos, of w] by blast
  show "let bs = BuildsDb_oldest_stopped (db c) (deployed c - max_deployed s) in
       int (length bs) \<le> deployed c - max_deployed s
       \<and> (case undeployer_cycle s w c of
            (r, c', es) \<Rightarrow>
              c' = c
              \<and> filter is_call es =
                  map (\<lambda>b. Call (Undeploy b))
                    (takeWhile (\<lambda>b. call w (Undeploy b) = Done) bs
                       @ take 1 (dropWhile (\<lambda>b. call w (Undeploy b) = Done) bs))
              \<and> r = (case dropWhile (\<lambda>b. call w (Undeploy b) = Done) bs of
                        [] \<Rightarrow> Done | b # rest \<Rightarrow> call w (Undeploy b))
              \<and> ((\<forall>b \<in> set bs. call w (Undeploy b) = Done) \<longrightarrow>
                   r = Done \<and> filter is_call es = map (\<lambda>b. Call (Undeploy b)) bs))"
    unfolding Let_def
    using cycle_shape [OF pre(1) pre(2)] selection_lengths(3) [of "db c" "deployed c - max_deployed s"] pos
    by simp
qed

text \<open>
  The theorem at a controller with three builds to initialize, two started and two stopped
  builds. Under limits of two initializing, one started and six deployed builds, with
  every call completing, the first two arrivals are initialized, the older started build
  is stopped and the older stopped build is undeployed. Under a limit of three
  initializing builds, with the call on the second arrival raising, the first two
  arrivals are called, the third is not, and the cycle ends with the exception.
\<close>

theorem scheduler_cycle_acts_on_selection_witness:
  "0 < max_initializing tight_settings - initializing crowded
   \<and> 0 < started crowded - max_started tight_settings
   \<and> 0 < deployed crowded - max_deployed tight_settings
   \<and> filter is_call (snd (snd (initializer_cycle tight_settings quiet_world crowded))) =
       [Call (Initialize (example_build ''a'' BuildStatus_deploying BuildInitStatus_todo 1)),
        Call (Initialize (example_build ''b'' BuildStatus_deploying BuildInitStatus_todo 2))]
   \<and> filter is_call (snd (snd (stopper_cycle tight_settings quiet_world crowded))) =
       [Call (Stop (example_build ''e'' BuildStatus_started BuildInitStatus_succeeded 4))]
   \<and> filter is_call (snd (snd (undeployer_cycle tight_settings quiet_world crowded))) =
       [Call (Undeploy (example_build ''g'' BuildStatus_stopped BuildInitStatus_succeeded 6))]
   \<and> 0 < max_initializing wide_settings - initializing crowded
   \<and> BuildsDb_to_initialize (db crowded) (max_initializing wide_settings - initializing crowded) =
       [example_build ''a'' BuildStatus_deploying BuildInitStatus_todo 1,
        example_build ''b'' BuildStatus_deploying BuildInitStatus_todo 2,
        example_build ''c'' BuildStatus_deploying BuildInitStatus_todo 3]
   \<and> call second_fails (Initialize (example_build ''b'' BuildStatus_deploying BuildInitStatus_todo 2))
       = Raised
   \<and> fst (initializer_cycle wide_settings second_fails crowded) = Raised
   \<and> filter is_call (snd (snd (initializer_cycle wide_settings second_fails crowded))) =
       [Call (Initialize (example_build ''a'' BuildStatus_deploying BuildInitStatus_todo 1)),
        Call (Initialize (example_build ''b'' BuildStatus_deploying BuildInitStatus_todo 2))]"
  using scheduler_cycle_acts_on_selection
    [where s = tight_settings and c = crowded and w = quiet_world]
    scheduler_cycle_acts_on_selection
    [where s = wide_settings and c = crowded and w = second_fails]
  by (simp add: crowded_counts crowded_selections tight_settings_def wide_settings_def
        quiet_world_def second_fails_def example_build_def split: prod.splits)

text \<open>
  C1 as stated takes the capacity of the stopper to be \<open>max_started - started\<close>. With a
  limit of three and one started build that number is two and \<open>oldest_started\<close> has a
  build to offer, yet the stopper calls nothing: the number it computes is
  \<open>started - max_started\<close>, which is negative here.
\<close>

theorem stopper_capacity_counterexample:
  "0 < max_started example_settings - started one_started
   \<and> BuildsDb_oldest_started (db one_started)
        (max_started example_settings - started one_started) \<noteq> []
   \<and> stopper_cycle example_settings quiet_world one_started = (Done, one_started, [])"
  by (simp add: example_settings_def one_started_def example_build_def started_def
        BuildsDb_count_by_status_def BuildsDb_oldest_started_def stopper_cycle_def)

subsection \<open>Cycles that do nothing\<close>

text \<open>
  C2. A wake cycle in which the number the scheduler computes is not positive, or in
  which the query returns no build, ends where it began: it goes back to \<open>_sleep\<close>
  having called nothing, logged nothing and changed nothing. In particular the stopper
  calls nothing with a limit of three and three started builds, and so for as long as
  the started count does not exceed the limit.
\<close>

theorem idle_cycle_no_effects:
  "(max_initializing s - initializing c \<le> 0
      \<or> BuildsDb_to_initialize (db c) (max_initializing s - initializing c) = []
     \<longrightarrow> initializer_cycle s w c = (Done, c, []))
   \<and> (started c - max_started s \<le> 0
      \<or> BuildsDb_oldest_started (db c) (started c - max_started s) = []
     \<longrightarrow> stopper_cycle s w c = (Done, c, []))
   \<and> (deployed c - max_deployed s \<le> 0
      \<or> BuildsDb_oldest_stopped (db c) (deployed c - max_deployed s) = []
     \<longrightarrow> undeployer_cycle s w c = (Done, c, []))
   \<and> (max_started s = 3 \<and> started c = 3 \<longrightarrow> stopper_cycle s w c = (Done, c, []))
   \<and> (started c \<le> max_started s \<longrightarrow> stopper_cycle s w c = (Done, c, []))"
  by (auto simp add: initializer_cycle_def stopper_cycle_def undeployer_cycle_def Let_def)

lemma saturated_counts:
  "initializing saturated = 1" "started saturated = 3" "deployed saturated = 9"
  by (simp_all add: saturated_def saturated_db_def example_build_def initializing_def
        started_def deployed_def BuildsDb_count_by_init_status_def BuildsDb_count_by_status_def
        BuildsDb_count_all_def)

lemma only_started_facts:
  "initializing only_started = 0" "deployed only_started = 2"
  "BuildsDb_to_initialize (db only_started) 1 = []"
  "BuildsDb_oldest_stopped (db only_started) 1 = []"
  by (simp_all add: only_started_def example_build_def initializing_def deployed_def
        BuildsDb_count_by_init_status_def BuildsDb_count_all_def BuildsDb_to_initialize_def
        BuildsDb_oldest_stopped_def)

text \<open>
  The theorem at the scenario of the specification (limit three, three started and five
  stopped builds, the initializing and deployed limits reached as well), and at a
  controller whose queries for the initializer and the undeployer come back empty
  although the computed numbers are positive.
\<close>

theorem idle_cycle_no_effects_witness:
  "max_started example_settings = 3 \<and> started saturated = 3
   \<and> length (filter (\<lambda>b. status b = BuildStatus_stopped) (db saturated)) = 5
   \<and> max_initializing example_settings - initializing saturated \<le> 0
   \<and> deployed saturated - max_deployed example_settings \<le> 0
   \<and> initializer_cycle example_settings quiet_world saturated = (Done, saturated, [])
   \<and> stopper_cycle example_settings quiet_world saturated = (Done, saturated, [])
   \<and> undeployer_cycle example_settings quiet_world saturated = (Done, saturated, [])
   \<and> 0 < max_initializing roomy_settings - initializing only_started
   \<and> BuildsDb_to_initialize (db only_started)
        (max_initializing roomy_settings - initializing only_started) = []
   \<and> 0 < deployed only_started - max_deployed roomy_settings
   \<and> BuildsDb_oldest_stopped (db only_started)
        (deployed only_started - max_deployed roomy_settings) = []
   \<and> initializer_cycle roomy_settings quiet_world only_started = (Done, only_started, [])
   \<and> undeployer_cycle roomy_settings quiet_world only_started = (Done, only_started, [])"
  using idle_cycle_no_effects [of example_settings saturated quiet_world]
    idle_cycle_no_effects [of roomy_settings only_started quiet_world]
  by (simp add: saturated_counts only_started_facts example_settings_def roomy_settings_def)
    (simp add: saturated_def saturated_db_def example_build_def)

subsection \<open>The database\<close>

lemma find_add_fresh:
  "P b \<Longrightarrow> \<forall>x \<in> set rows. \<not> P x \<Longrightarrow> find P (BuildsDb_add rows b) = Some b"
  by (induction rows) simp_all

lemma get_after_add: "BuildsDb_get (BuildsDb_add rows b) (name b) = Some b"
  by (induction rows) (simp_all add: BuildsDb_get_def)

lemma get_after_remove: "BuildsDb_get (BuildsDb_remove rows n) n = None"
  by (simp add: BuildsDb_get_def BuildsDb_remove_def find_None_iff)

lemma find_same_commit:
  "\<exists>b \<in> set rows. P b \<Longrightarrow> \<exists>b \<in> set rows. P b \<and> find P rows = Some b"
  by (induction rows) auto

subsection \<open>deploy_or_delay_start\<close>

text \<open>
  C3. When the database holds a build with the commit identity given,
  \<open>deploy_or_delay_start\<close> calls \<open>start\<close> on such a build and nothing else; when it
  holds none it calls \<open>Build.deploy\<close> with that identity and nothing else. So of two
  calls with the same arguments, between which the deployment watcher indexes the build
  of the first, the first deploys and the second starts that build: one deployment.
\<close>

theorem deploy_or_delay_start_once:
  "((\<exists>b \<in> set (db c). same_commit r tb p gc b) \<longrightarrow>
      (\<exists>b \<in> set (db c). same_commit r tb p gc b
         \<and> deploy_or_delay_start w c r tb p gc = (call w (Start b), c, [Call (Start b)])))
   \<and> ((\<forall>b \<in> set (db c). \<not> same_commit r tb p gc b) \<longrightarrow>
      deploy_or_delay_start w c r tb p gc
        = (call w (Deploy r tb p gc), c, [Call (Deploy r tb p gc)]))
   \<and> ((\<forall>b \<in> set (db c). \<not> same_commit r tb p gc b)
       \<and> labels d = Some m \<and> m ''runboat/build'' = Some n \<and> n \<noteq> []
       \<and> same_commit r tb p gc (from_deployment d) \<longrightarrow>
      snd (snd (deploy_or_delay_start w c r tb p gc))
        @ snd (snd (deploy_or_delay_start w'
                      (fst (snd (deployment_event from_deployment ''ADDED'' d c))) r tb p gc))
        = [Call (Deploy r tb p gc), Call (Start (from_deployment d))])"
proof (intro conjI impI)
  assume "\<exists>b \<in> set (db c). same_commit r tb p gc b"
  then obtain b where "b \<in> set (db c)" "same_commit r tb p gc b"
    "find (same_commit r tb p gc) (db c) = Some b"
    using find_same_commit [of "db c" "same_commit r tb p gc"] by blast
  then show "\<exists>b \<in> set (db c). same_commit r tb p gc b
      \<and> deploy_or_delay_start w c r tb p gc = (call w (Start b), c, [Call (Start b)])"
    by (auto simp add: deploy_or_delay_start_def BuildsDb_get_for_commit_def)
next
  assume "\<forall>b \<in> set (db c). \<not> same_commit r tb p gc b"
  then have "find (same_commit r tb p gc) (db c) = None"
    by (simp add: find_None_iff)
  then show "deploy_or_delay_start w c r tb p gc
      = (call w (Deploy r tb p gc), c, [Call (Deploy r tb p gc)])"
    by (simp add: deploy_or_delay_start_def BuildsDb_get_for_commit_def)
next
  assume a: "(\<forall>b \<in> set (db c). \<not> same_commit r tb p gc b)
       \<and> labels d = Some m \<and> m ''runboat/build'' = Some n \<and> n \<noteq> []
       \<and> same_commit r tb p gc (from_deployment d)"
  then have none: "find (same_commit r tb p gc) (db c) = None"
    by (simp add: find_None_iff)
  have indexed: "db (fst (snd (deployment_event from_deployment ''ADDED'' d c)))
      = BuildsDb_add (db c) (from_deployment d)"
    using a by (simp add: deployment_event_def)
  have "find (same_commit r tb p gc) (BuildsDb_add (db c) (from_deployment d))
      = Some (from_deployment d)"
    using a by (intro find_add_fresh) simp_all
  then show "snd (snd (deploy_or_delay_start w c r tb p gc))
        @ snd (snd (deploy_or_delay_start w'
                      (fst (snd (deployment_event from_deployment ''ADDED'' d c))) r tb p gc))
        = [Call (Deploy r tb p gc), Call (Start (from_deployment d))]"
    using none indexed by (simp add: deploy_or_delay_start_def BuildsDb_get_for_commit_def)
qed

text \<open>
  The theorem at the empty database of a new controller and the commit \<open>c0ffee\<close> of
  \<open>org/app\<close>, whose deployment the watcher indexes between the two calls.
\<close>

theorem deploy_or_delay_start_once_witness:
  "same_commit ''org/app'' ''main'' None ''c0ffee'' (labelled_build app_deployment)
   \<and> labels app_deployment = Some app_labels
   \<and> app_labels ''runboat/build'' = Some ''b7''
   \<and> db Controller_init = []
   \<and> snd (snd (deploy_or_delay_start quiet_world Controller_init
                  ''org/app'' ''main'' None ''c0ffee''))
       = [Call (Deploy ''org/app'' ''main'' None ''c0ffee'')]
   \<and> labelled_build app_deployment
        \<in> set (db (fst (snd (deployment_event labelled_build ''ADDED'' app_deployment
                                 Controller_init))))
   \<and> snd (snd (deploy_or_delay_start quiet_world
                  (fst (snd (deployment_event labelled_build ''ADDED'' app_deployment
                               Controller_init)))
                  ''org/app'' ''main'' None ''c0ffee''))
       = [Call (Start (labelled_build app_deployment))]"
  using deploy_or_delay_start_once
    [where c = Controller_init and r = "''org/app''" and tb = "''main''" and p = None
       and gc = "''c0ffee''" and w = quiet_world and w' = quiet_world
       and d = app_deployment and m = app_labels and n = "''b7''"
       and from_deployment = labelled_build]
    deploy_or_delay_start_once
    [where c = "fst (snd (deployment_event labelled_build ''ADDED'' app_deployment
                            Controller_init))"
       and r = "''org/app''" and tb = "''main''" and p = None
       and gc = "''c0ffee''" and w = quiet_world and w' = quiet_world
       and d = app_deployment and m = app_labels and n = "''b7''"
       and from_deployment = labelled_build]
  by (simp add: Controller_init_def reset_def BuildsDb_empty_def app_deployment_def
        app_labels_def labelled_build_def label_or_empty_def same_commit_def
        deployment_event_def)

subsection \<open>The deployment watcher\<close>

lemma deployment_event_without_labels:
  "labels d = None \<Longrightarrow> deployment_event from_deployment t d c = (Raised, c, [])"
  by (simp add: deployment_event_def)

text \<open>
  C4 (as amended). For a deployment event whose labels are a dictionary in which
  \<open>runboat/build\<close> is present and not empty, the watcher inserts or replaces the build
  made from the resource on \<open>ADDED\<close> and \<open>MODIFIED\<close>, removes the build of that name
  on \<open>DELETED\<close>, touches nothing but the database, ends the event with one wake-up
  signal and goes on to the next event. An event whose dictionary of labels lacks
  \<open>runboat/build\<close>, or holds the empty string for it, changes nothing, signals nothing
  and is passed over. (A resource whose labels are \<open>None\<close> is outside this statement.)
\<close>

theorem deployment_event_indexes:
  "(labels d = Some m \<and> m ''runboat/build'' = Some n \<and> n \<noteq> [] \<longrightarrow>
      (case deployment_event from_deployment t d c of
         (r, c', es) \<Rightarrow>
           r = Done
           \<and> (t = ''ADDED'' \<or> t = ''MODIFIED'' \<longrightarrow>
              db c' = BuildsDb_add (db c) (from_deployment d)
              \<and> BuildsDb_get (db c') (name (from_deployment d)) = Some (from_deployment d))
           \<and> (t = ''DELETED'' \<longrightarrow>
              db c' = BuildsDb_remove (db c) n \<and> BuildsDb_get (db c') n = None)
           \<and> c' = c\<lparr>db := db c'\<rparr>
           \<and> filter (\<lambda>e. e = Wakeup) es = [Wakeup] \<and> last es = Wakeup))
   \<and> (labels d = Some m
       \<and> (m ''runboat/build'' = None \<or> m ''runboat/build'' = Some []) \<longrightarrow>
      deployment_event from_deployment t d c = (Done, c, []))"
  by (auto simp add: deployment_event_def get_after_add get_after_remove)

text \<open>
  The theorem at the deployment of build \<open>b7\<close>, added to an empty database and deleted
  again, and at a deployment whose labels do not include the build label.
\<close>

theorem deployment_event_indexes_witness:
  "labels app_deployment = Some app_labels
   \<and> app_labels ''runboat/build'' = Some ''b7''
   \<and> deployment_event labelled_build ''ADDED'' app_deployment Controller_init
       = (Done, Controller_init\<lparr>db := [labelled_build app_deployment]\<rparr>,
          [Log (Debug_deployment ''ADDED'' ''Deployment'' ''b7''), Wakeup])
   \<and> deployment_event labelled_build ''DELETED'' app_deployment
         (Controller_init\<lparr>db := [labelled_build app_deployment]\<rparr>)
       = (Done, Controller_init,
          [Log (Debug_deployment ''DELETED'' ''Deployment'' ''b7''), Wakeup])
   \<and> labels other_deployment = Some other_labels
   \<and> other_labels ''runboat/build'' = None
   \<and> deployment_event labelled_build ''ADDED'' other_deployment Controller_init
       = (Done, Controller_init, [])"
  using deployment_event_indexes
    [where d = app_deployment and m = app_labels and n = "''b7''"
       and from_deployment = labelled_build and t = "''ADDED''" and c = Controller_init]
    deployment_event_indexes
    [where d = app_deployment and m = app_labels and n = "''b7''"
       and from_deployment = labelled_build and t = "''DELETED''"
       and c = "Controller_init\<lparr>db := [labelled_build app_deployment]\<rparr>"]
    deployment_event_indexes
    [where d = other_deployment and m = other_labels and n = "''b7''"
       and from_deployment = labelled_build and t = "''ADDED''" and c = Controller_init]
  by (simp add: Controller_init_def reset_def BuildsDb_empty_def app_deployment_def
        app_labels_def other_deployment_def other_labels_def labelled_build_def
        label_or_empty_def deployment_event_def BuildsDb_remove_def)

text \<open>
  C4 as stated speaks of every event that carries the label. An \<open>ADDED\<close> event whose
  label \<open>runboat/build\<close> is the empty string carries it, and the watcher skips it
  (\<open>if not build_name: continue\<close>): the database is not the one the insertion would
  leave, and no wake-up is signalled.
\<close>

theorem empty_build_label_counterexample:
  "labels blank_deployment = Some blank_labels
   \<and> blank_labels ''runboat/build'' = Some []
   \<and> deployment_event labelled_build ''ADDED'' blank_deployment Controller_init
       = (Done, Controller_init, [])
   \<and> db (fst (snd (deployment_event labelled_build ''ADDED'' blank_deployment
                      Controller_init)))
       \<noteq> BuildsDb_add (db Controller_init) (labelled_build blank_deployment)
   \<and> Wakeup \<notin> set (snd (snd (deployment_event labelled_build ''ADDED'' blank_deployment
                                Controller_init)))"
  by (simp add: Controller_init_def reset_def BuildsDb_empty_def blank_deployment_def
        blank_labels_def deployment_event_def)

subsection \<open>The supervisor\<close>

lemma walking_dead_begins:
  "prefix (Log (Info_restarting fname) # snd (snd (func (given r) c)))
     (snd (snd (walking_dead fname func (r # rs) c)))"
proof -
  obtain out c' es where f: "func (given r) c = (out, c', es)"
    by (cases "func (given r) c")
  obtain r' c'' es' where w: "walking_dead fname func rs c' = (r', c'', es')"
    by (cases "walking_dead fname func rs c'")
  show ?thesis
    using f w by (cases out; cases "backoff r") simp_all
qed

lemma walking_dead_restart_prefix:
  fixes f :: "'x \<Rightarrow> controller \<Rightarrow> outcome \<times> controller \<times> effect list"
  assumes "f (given a) s0 = (Raised, s1, xs)" "backoff a = Done"
  shows "prefix (Log (Info_restarting g) # xs
                   @ [Log (Exception_unhandled g 5), Sleep 5, Log (Info_restarting g)]
                   @ snd (snd (f (given a2) s1)))
           (snd (snd (walking_dead g f (a # a2 # as2) s0)))"
proof -
  obtain r' c'' es' where w: "walking_dead g f (a2 # as2) s1 = (r', c'', es')"
    by (cases "walking_dead g f (a2 # as2) s1")
  have "prefix (Log (Info_restarting g) # snd (snd (f (given a2) s1))) es'"
    using walking_dead_begins [of g f a2 s1 as2] w by simp
  then show ?thesis using assms w by simp
qed

text \<open>
  C5. When a run of a loop function under the supervisor ends with an exception, the
  supervisor logs it and sleeps five seconds; when that sleep completes it starts the
  same function again, on the controller as the failed run left it, and what follows is
  what the supervisor does from there. The next run begins at the top of the function.
  For the deployment watcher that is the reset of the database: the events of the new
  watch session are handled from the empty database, whatever the database held before.
\<close>

theorem walking_dead_restarts:
  "(func (given r) c = (Raised, c', es) \<longrightarrow>
      prefix (Log (Info_restarting fname) # es @ [Log (Exception_unhandled fname 5), Sleep 5])
        (snd (snd (walking_dead fname func (r # rs) c)))
      \<and> (backoff r = Done \<longrightarrow>
           walking_dead fname func (r # rs) c =
             (case walking_dead fname func rs c' of
                (r', c'', es') \<Rightarrow>
                  (r', c'', Log (Info_restarting fname) # es
                             @ [Log (Exception_unhandled fname 5), Sleep 5] @ es'))
           \<and> (\<forall>r2 rs2. rs = r2 # rs2 \<longrightarrow>
                prefix (Log (Info_restarting fname) # es
                          @ [Log (Exception_unhandled fname 5), Sleep 5,
                             Log (Info_restarting fname)]
                          @ snd (snd (func (given r2) c')))
                  (snd (snd (walking_dead fname func (r # rs) c))))))
   \<and> (deployment_watcher from_deployment (given w) k = (Raised, k', des) \<and> backoff w = Done \<longrightarrow>
        prefix (Log (Info_restarting Deployment_watcher) # des
                  @ [Log (Exception_unhandled Deployment_watcher 5), Sleep 5,
                     Log (Info_restarting Deployment_watcher)]
                  @ snd (snd (deployment_events from_deployment (given w2)
                                (k'\<lparr>db := BuildsDb_empty\<rparr>))))
          (snd (snd (walking_dead Deployment_watcher (deployment_watcher from_deployment)
                       (w # w2 # ws) k))))
   \<and> deployment_watcher from_deployment evs (k\<lparr>db := rows\<rparr>)
        = deployment_watcher from_deployment evs (k\<lparr>db := BuildsDb_empty\<rparr>)
   \<and> deployment_watcher from_deployment [] k = (Done, k\<lparr>db := BuildsDb_empty\<rparr>, [])"
proof -
  have first: "prefix (Log (Info_restarting fname) # es
          @ [Log (Exception_unhandled fname 5), Sleep 5])
        (snd (snd (walking_dead fname func (r # rs) c)))"
    if "func (given r) c = (Raised, c', es)"
  proof -
    obtain r' c'' es' where w: "walking_dead fname func rs c' = (r', c'', es')"
      by (cases "walking_dead fname func rs c'")
    show ?thesis using that w by (cases "backoff r") simp_all
  qed
  have second: "walking_dead fname func (r # rs) c =
             (case walking_dead fname func rs c' of
                (r', c'', es') \<Rightarrow>
                  (r', c'', Log (Info_restarting fname) # es
                             @ [Log (Exception_unhandled fname 5), Sleep 5] @ es'))"
    if "func (given r) c = (Raised, c', es)" "backoff r = Done"
    using that by (simp split: prod.splits)
  have watcher: "prefix (Log (Info_restarting Deployment_watcher) # des
                  @ [Log (Exception_unhandled Deployment_watcher 5), Sleep 5,
                     Log (Info_restarting Deployment_watcher)]
                  @ snd (snd (deployment_events from_deployment (given w2)
                                (k'\<lparr>db := BuildsDb_empty\<rparr>))))
          (snd (snd (walking_dead Deployment_watcher (deployment_watcher from_deployment)
                       (w # w2 # ws) k)))"
    if "deployment_watcher from_deployment (given w) k = (Raised, k', des)" "backoff w = Done"
    using walking_dead_restart_prefix [where f = "deployment_watcher from_deployment"
        and a = w and ?s0.0 = k and ?s1.0 = k' and xs = des and g = Deployment_watcher
        and ?a2.0 = w2 and ?as2.0 = ws]
      that
    by (simp add: deployment_watcher_def reset_def)
  have third: "\<forall>r2 rs2. rs = r2 # rs2 \<longrightarrow>
                prefix (Log (Info_restarting fname) # es
                          @ [Log (Exception_unhandled fname 5), Sleep 5,
                             Log (Info_restarting fname)]
                          @ snd (snd (func (given r2) c')))
                  (snd (snd (walking_dead fname func (r # rs) c)))"
    if "func (given r) c = (Raised, c', es)" "backoff r = Done"
    using walking_dead_restart_prefix [where f = func and a = r and ?s0.0 = c and ?s1.0 = c'
        and xs = es and g = fname] that by blast
  have forgets: "deployment_watcher from_deployment evs (k\<lparr>db := rows\<rparr>)
        = deployment_watcher from_deployment evs (k\<lparr>db := BuildsDb_empty\<rparr>)"
    by (simp add: deployment_watcher_def reset_def)
  have idle: "deployment_watcher from_deployment [] k = (Done, k\<lparr>db := BuildsDb_empty\<rparr>, [])"
    by (simp add: deployment_watcher_def reset_def)
  show ?thesis
    by (intro conjI impI; (elim conjE)?;
        (rule first second third watcher forgets idle; assumption))qed

lemma broken_watch_run:
  "deployment_watcher labelled_build (given broken_watch) Controller_init
     = (Raised, Controller_init\<lparr>db := [labelled_build app_deployment]\<rparr>,
        [Log (Debug_deployment ''ADDED'' ''Deployment'' ''b7''), Wakeup])"
  by (simp add: broken_watch_def deployment_watcher_def deployment_event_def reset_def
        Controller_init_def BuildsDb_empty_def app_deployment_def app_labels_def)

lemma failing_wake_run:
  "initializer tight_settings (given failing_wake) Controller_init
     = (Raised, Controller_init\<lparr>db := mixed_db\<rparr>,
        [Wait_wakeup 10, Log (Info_initializing 0 2 2),
         Call (Initialize (example_build ''a'' BuildStatus_deploying BuildInitStatus_todo 1))])"
  by (simp add: failing_wake_def failing_world_def initializer_def initializer_cycle_def
        tight_settings_def initializing_def BuildsDb_count_by_init_status_def
        BuildsDb_to_initialize_def mixed_db_def example_build_def Controller_init_def reset_def)

text \<open>
  The theorem at a deployment watcher whose stream raises after one event, and at an
  initializer whose first call on a build raises: each is logged, waited for and started
  again, the watcher from an empty database.
\<close>

theorem walking_dead_restarts_witness:
  "fst (deployment_watcher labelled_build (given broken_watch) Controller_init) = Raised
   \<and> db (fst (snd (deployment_watcher labelled_build (given broken_watch) Controller_init)))
       = [labelled_build app_deployment]
   \<and> backoff broken_watch = Done
   \<and> walking_dead Deployment_watcher (deployment_watcher labelled_build)
         [broken_watch, silent_watch] Controller_init
       = (Suspended, Controller_init,
          [Log (Info_restarting Deployment_watcher),
           Log (Debug_deployment ''ADDED'' ''Deployment'' ''b7''), Wakeup,
           Log (Exception_unhandled Deployment_watcher 5), Sleep 5,
           Log (Info_restarting Deployment_watcher)])
   \<and> fst (initializer tight_settings (given failing_wake) Controller_init) = Raised
   \<and> backoff failing_wake = Done
   \<and> snd (snd (walking_dead Initializer (initializer tight_settings)
                  [failing_wake, no_wake] Controller_init))
       = [Log (Info_restarting Initializer), Wait_wakeup 10, Log (Info_initializing 0 2 2),
          Call (Initialize (example_build ''a'' BuildStatus_deploying BuildInitStatus_todo 1)),
          Log (Exception_unhandled Initializer 5), Sleep 5,
          Log (Info_restarting Initializer), Wait_wakeup 10]"
  using walking_dead_restarts
    [where func = "deployment_watcher labelled_build" and r = broken_watch
       and c = Controller_init and c' = "Controller_init\<lparr>db := [labelled_build app_deployment]\<rparr>"
       and es = "[Log (Debug_deployment ''ADDED'' ''Deployment'' ''b7''), Wakeup]"
       and fname = Deployment_watcher and rs = "[silent_watch]"
       and from_deployment = labelled_build and w = broken_watch and k = Controller_init
       and k' = "Controller_init\<lparr>db := [labelled_build app_deployment]\<rparr>"
       and des = "[Log (Debug_deployment ''ADDED'' ''Deployment'' ''b7''), Wakeup]"
       and ?w2.0 = silent_watch and ws = "[]"
       and evs = "[]" and rows = "[]"]
    walking_dead_restarts
    [where func = "initializer tight_settings" and r = failing_wake
       and c = Controller_init and c' = "Controller_init\<lparr>db := mixed_db\<rparr>"
       and es = "[Wait_wakeup 10, Log (Info_initializing 0 2 2),
         Call (Initialize (example_build ''a'' BuildStatus_deploying BuildInitStatus_todo 1))]"
       and fname = Initializer and rs = "[no_wake]"
       and from_deployment = labelled_build and w = broken_watch and k = Controller_init
       and k' = "Controller_init\<lparr>db := [labelled_build app_deployment]\<rparr>"
       and des = "[Log (Debug_deployment ''ADDED'' ''Deployment'' ''b7''), Wakeup]"
       and ?w2.0 = silent_watch and ws = "[]"
       and evs = "[]" and rows = "[]"]
  by (simp add: broken_watch_run failing_wake_run)
    (simp add: broken_watch_def failing_wake_def silent_watch_def no_wake_def
       deployment_watcher_def initializer_def reset_def Controller_init_def BuildsDb_empty_def)

subsection \<open>The job watcher\<close>

lemma indexed_get: "BuildsDb_get (db indexed) ''b7'' = Some (labelled_build app_deployment)"
  by (simp add: indexed_def BuildsDb_get_def labelled_build_def label_or_empty_def
        app_deployment_def app_labels_def)

lemma example_job_labels:
  "labels (example_job job_kind s f) = Some (job_labels job_kind)"
  "job_labels job_kind ''runboat/build'' = Some ''b7''"
  "job_labels job_kind ''runboat/job-kind'' = Some job_kind"
  "succeeded (example_job job_kind s f) = s" "failed (example_job job_kind s f) = f"
  "kind (example_job job_kind s f) = ''Job''"
  by (simp_all add: example_job_def job_labels_def)

lemma dispatch_initialize:
  "dispatch w ''initialize'' j b =
     (if succeeded j then (call w (On_initialize_succeeded b), [Call (On_initialize_succeeded b)])
      else if failed j then (call w (On_initialize_failed b), [Call (On_initialize_failed b)])
      else (call w (On_initialize_started b), [Call (On_initialize_started b)]))"
  by (simp add: dispatch_def invoke_def split: outcome.splits)

lemma dispatch_cleanup:
  "dispatch w ''cleanup'' j b =
     (if succeeded j then (call w (On_cleanup_succeeded b), [Call (On_cleanup_succeeded b)])
      else if failed j then (call w (On_cleanup_failed b), [Call (On_cleanup_failed b)])
      else (call w (On_cleanup_started b), [Call (On_cleanup_started b)]))"
  by (simp add: dispatch_def invoke_def)

lemma job_event_found:
  assumes "labels j = Some m \<and> m ''runboat/build'' = Some n" "n \<noteq> []"
    and "t = ''ADDED'' \<or> t = ''MODIFIED''"
    and "BuildsDb_get (db c) n = Some b
         \<or> BuildsDb_get (db c) n = None \<and> from_name w n = (Done, Some b)"
    and "m ''runboat/job-kind'' = Some job_kind"
    and "job_kind = ''initialize'' \<or> job_kind = ''cleanup''"
  shows "\<exists>es. filter is_call es = []
     \<and> job_event w t j c
         = (fst (dispatch w job_kind j b), c, es @ snd (dispatch w job_kind j b))"
proof -
  obtain r' es' where d: "dispatch w job_kind j b = (r', es')"
    by (cases "dispatch w job_kind j b")
  from assms(4) show ?thesis
  proof
    assume "BuildsDb_get (db c) n = Some b"
    then have "job_event w t j c = (r', c, [Log (Debug_job t (kind j) job_kind n)] @ es')"
      using assms(1,2,3,5,6) d by (auto simp add: job_event_def resolve_build_def)
    then show ?thesis using d by (intro exI [of _ "[Log (Debug_job t (kind j) job_kind n)]"]) simp
  next
    assume "BuildsDb_get (db c) n = None \<and> from_name w n = (Done, Some b)"
    then have "job_event w t j c
        = (r', c, [Log (Debug_job t (kind j) job_kind n), From_name n] @ es')"
      using assms(1,2,3,5,6) d by (auto simp add: job_event_def resolve_build_def)
    then show ?thesis
      using d by (intro exI [of _ "[Log (Debug_job t (kind j) job_kind n), From_name n]"]) simp
  qed
qed

lemma job_event_without_labels:
  "labels j = None \<Longrightarrow> job_event w t j c = (Raised, c, [])"
  by (simp add: job_event_def)

lemma job_event_skips:
  "(labels j = Some m \<and> m ''runboat/build'' = None \<longrightarrow> job_event w t j c = (Done, c, []))
   \<and> (labels j = Some m \<and> m ''runboat/job-kind'' \<noteq> Some ''initialize''
       \<and> m ''runboat/job-kind'' \<noteq> Some ''cleanup'' \<longrightarrow>
      job_event w t j c = (Done, c, []))
   \<and> (labels j = Some m \<and> t = ''DELETED'' \<longrightarrow>
      (case job_event w t j c of
         (r, c', es) \<Rightarrow> r = Done \<and> c' = c \<and> filter is_call es = []))
   \<and> (labels j = Some m \<and> (t = ''ADDED'' \<or> t = ''MODIFIED'')
       \<and> m ''runboat/build'' = Some n
       \<and> BuildsDb_get (db c) n = None \<and> from_name w n = (Done, None) \<longrightarrow>
      (case job_event w t j c of
         (r, c', es) \<Rightarrow> r = Done \<and> c' = c \<and> filter is_call es = []))"
proof (intro conjI impI)
  assume "labels j = Some m \<and> m ''runboat/build'' = None"
  then show "job_event w t j c = (Done, c, [])"
    by (simp add: job_event_def)
next
  assume "labels j = Some m \<and> m ''runboat/job-kind'' \<noteq> Some ''initialize''
       \<and> m ''runboat/job-kind'' \<noteq> Some ''cleanup''"
  then show "job_event w t j c = (Done, c, [])"
    by (auto simp add: job_event_def split: option.splits)
next
  assume "labels j = Some m \<and> t = ''DELETED''"
  then show "case job_event w t j c of
         (r, c', es) \<Rightarrow> r = Done \<and> c' = c \<and> filter is_call es = []"
    by (simp add: job_event_def split: option.splits)
next
  assume "labels j = Some m \<and> (t = ''ADDED'' \<or> t = ''MODIFIED'')
       \<and> m ''runboat/build'' = Some n
       \<and> BuildsDb_get (db c) n = None \<and> from_name w n = (Done, None)"
  then show "case job_event w t j c of
         (r, c', es) \<Rightarrow> r = Done \<and> c' = c \<and> filter is_call es = []"
    by (auto simp add: job_event_def resolve_build_def split: option.splits)
qed

text \<open>
  C6. The claim is that the job watcher passes over a job event that lacks the build
  label without a call on a build and without an error. The code reads
  \<open>job.metadata.labels.get("runboat/build")\<close> with no guard for labels that are
  \<open>None\<close>, as they are for a job that has no labels at all: for such an event
  \<open>.get\<close> raises \<open>AttributeError\<close>, the body of the loop ends with the exception and
  the watcher stops at that event instead of going on to the next. Here the event is an
  \<open>ADDED\<close> event of a job without labels, alone and followed by the deletion of an
  initialization job, which is then never read.
\<close>

theorem job_without_labels_raises:
  "labels bare_job = None
   \<and> job_event quiet_world ''ADDED'' bare_job indexed = (Raised, indexed, [])
   \<and> fst (job_watcher
             [Resumed (quiet_world, ''ADDED'', bare_job),
              Resumed (quiet_world, ''DELETED'', example_job ''initialize'' True False)]
             indexed) = Raised
   \<and> snd (snd (job_watcher
             [Resumed (quiet_world, ''ADDED'', bare_job),
              Resumed (quiet_world, ''DELETED'', example_job ''initialize'' True False)]
             indexed)) = []"
  by (simp add: bare_job_def job_event_def)

text \<open>
  C7. For an \<open>ADDED\<close> or \<open>MODIFIED\<close> event of an \<open>initialize\<close> or \<open>cleanup\<close> job
  whose build is found, in the database or else by \<open>Build.from_name\<close>, the job watcher
  makes exactly one call on that build: the \<open>succeeded\<close> hook of the job kind when the
  job has succeeded, otherwise the \<open>failed\<close> hook when it has failed, otherwise the
  \<open>started\<close> hook. The event ends as that call ends and the controller is unchanged.
\<close>

theorem job_event_dispatches:
  "labels j = Some m \<and> m ''runboat/build'' = Some n \<and> n \<noteq> []
   \<and> (t = ''ADDED'' \<or> t = ''MODIFIED'')
   \<and> (BuildsDb_get (db c) n = Some b
       \<or> BuildsDb_get (db c) n = None \<and> from_name w n = (Done, Some b)) \<longrightarrow>
   (m ''runboat/job-kind'' = Some ''initialize'' \<longrightarrow>
      (case job_event w t j c of
         (r, c', es) \<Rightarrow>
           c' = c
           \<and> (succeeded j \<longrightarrow>
                filter is_call es = [Call (On_initialize_succeeded b)]
                \<and> r = call w (On_initialize_succeeded b))
           \<and> (\<not> succeeded j \<and> failed j \<longrightarrow>
                filter is_call es = [Call (On_initialize_failed b)]
                \<and> r = call w (On_initialize_failed b))
           \<and> (\<not> succeeded j \<and> \<not> failed j \<longrightarrow>
                filter is_call es = [Call (On_initialize_started b)]
                \<and> r = call w (On_initialize_started b))))
   \<and> (m ''runboat/job-kind'' = Some ''cleanup'' \<longrightarrow>
      (case job_event w t j c of
         (r, c', es) \<Rightarrow>
           c' = c
           \<and> (succeeded j \<longrightarrow>
                filter is_call es = [Call (On_cleanup_succeeded b)]
                \<and> r = call w (On_cleanup_succeeded b))
           \<and> (\<not> succeeded j \<and> failed j \<longrightarrow>
                filter is_call es = [Call (On_cleanup_failed b)]
                \<and> r = call w (On_cleanup_failed b))
           \<and> (\<not> succeeded j \<and> \<not> failed j \<longrightarrow>
                filter is_call es = [Call (On_cleanup_started b)]
                \<and> r = call w (On_cleanup_started b))))"
proof (intro impI conjI)
  assume a: "labels j = Some m \<and> m ''runboat/build'' = Some n \<and> n \<noteq> []
   \<and> (t = ''ADDED'' \<or> t = ''MODIFIED'')
   \<and> (BuildsDb_get (db c) n = Some b
       \<or> BuildsDb_get (db c) n = None \<and> from_name w n = (Done, Some b))"
    and k: "m ''runboat/job-kind'' = Some ''initialize''"
  obtain es where "filter is_call es = []"
    "job_event w t j c = (fst (dispatch w ''initialize'' j b), c,
        es @ snd (dispatch w ''initialize'' j b))"
    using job_event_found [of j m n t c b w "''initialize''"] a k by blast
  then show "case job_event w t j c of
         (r, c', es) \<Rightarrow>
           c' = c
           \<and> (succeeded j \<longrightarrow>
                filter is_call es = [Call (On_initialize_succeeded b)]
                \<and> r = call w (On_initialize_succeeded b))
           \<and> (\<not> succeeded j \<and> failed j \<longrightarrow>
                filter is_call es = [Call (On_initialize_failed b)]
                \<and> r = call w (On_initialize_failed b))
           \<and> (\<not> succeeded j \<and> \<not> failed j \<longrightarrow>
                filter is_call es = [Call (On_initialize_started b)]
                \<and> r = call w (On_initialize_started b))"
    by (simp add: dispatch_initialize)
next
  assume a: "labels j = Some m \<and> m ''runboat/build'' = Some n \<and> n \<noteq> []
   \<and> (t = ''ADDED'' \<or> t = ''MODIFIED'')
   \<and> (BuildsDb_get (db c) n = Some b
       \<or> BuildsDb_get (db c) n = None \<and> from_name w n = (Done, Some b))"
    and k: "m ''runboat/job-kind'' = Some ''cleanup''"
  obtain es where "filter is_call es = []"
    "job_event w t j c = (fst (dispatch w ''cleanup'' j b), c,
        es @ snd (dispatch w ''cleanup'' j b))"
    using job_event_found [of j m n t c b w "''cleanup''"] a k by blast
  then show "case job_event w t j c of
         (r, c', es) \<Rightarrow>
           c' = c
           \<and> (succeeded j \<longrightarrow>
                filter is_call es = [Call (On_cleanup_succeeded b)]
                \<and> r = call w (On_cleanup_succeeded b))
           \<and> (\<not> succeeded j \<and> failed j \<longrightarrow>
                filter is_call es = [Call (On_cleanup_failed b)]
                \<and> r = call w (On_cleanup_failed b))
           \<and> (\<not> succeeded j \<and> \<not> failed j \<longrightarrow>
                filter is_call es = [Call (On_cleanup_started b)]
                \<and> r = call w (On_cleanup_started b))"
    by (simp add: dispatch_cleanup)
qed

text \<open>
  The theorem at a succeeded initialization job of an indexed build, at a running one,
  and at a failed cleanup job whose build is found by \<open>Build.from_name\<close> only.
\<close>

theorem job_event_dispatches_witness:
  "labels (example_job ''initialize'' True False) = Some (job_labels ''initialize'')
   \<and> job_labels ''initialize'' ''runboat/build'' = Some ''b7''
   \<and> BuildsDb_get (db indexed) ''b7'' = Some (labelled_build app_deployment)
   \<and> job_event quiet_world ''ADDED'' (example_job ''initialize'' True False) indexed
       = (Done, indexed,
          [Log (Debug_job ''ADDED'' ''Job'' ''initialize'' ''b7''),
           Call (On_initialize_succeeded (labelled_build app_deployment))])
   \<and> job_event quiet_world ''MODIFIED'' (example_job ''initialize'' False False) indexed
       = (Done, indexed,
          [Log (Debug_job ''MODIFIED'' ''Job'' ''initialize'' ''b7''),
           Call (On_initialize_started (labelled_build app_deployment))])
   \<and> BuildsDb_get (db Controller_init) ''b7'' = None
   \<and> from_name finding_world ''b7''
       = (Done, Some (example_build ''b7'' BuildStatus_started BuildInitStatus_started 0))
   \<and> job_event finding_world ''MODIFIED'' (example_job ''cleanup'' False True) Controller_init
       = (Done, Controller_init,
          [Log (Debug_job ''MODIFIED'' ''Job'' ''cleanup'' ''b7''), From_name ''b7'',
           Call (On_cleanup_failed
                   (example_build ''b7'' BuildStatus_started BuildInitStatus_started 0))])"
  using job_event_dispatches
    [where j = "example_job ''initialize'' True False" and m = "job_labels ''initialize''" and n = "''b7''" and t = "''ADDED''"
       and c = indexed and b = "labelled_build app_deployment" and w = quiet_world]
    job_event_dispatches
    [where j = "example_job ''initialize'' False False" and m = "job_labels ''initialize''" and n = "''b7''" and t = "''MODIFIED''"
       and c = indexed and b = "labelled_build app_deployment" and w = quiet_world]
    job_event_dispatches
    [where j = "example_job ''cleanup'' False True" and m = "job_labels ''cleanup''" and n = "''b7''" and t = "''MODIFIED''"
       and c = Controller_init and w = finding_world
       and b = "example_build ''b7'' BuildStatus_started BuildInitStatus_started 0"]
  by (simp add: example_job_labels indexed_get job_event_def resolve_build_def
        dispatch_initialize dispatch_cleanup)
    (simp add: quiet_world_def finding_world_def Controller_init_def reset_def
       BuildsDb_empty_def BuildsDb_get_def example_job_labels dispatch_cleanup)

text \<open>
  C9. When the status of a job reports both succeeded and failed, the job watcher calls
  the \<open>succeeded\<close> hook of the job kind on the build it found and does not call the
  \<open>failed\<close> hook: \<open>job.status.succeeded\<close> is tested first.
\<close>

theorem succeeded_before_failed:
  "labels j = Some m \<and> m ''runboat/build'' = Some n \<and> n \<noteq> []
   \<and> (t = ''ADDED'' \<or> t = ''MODIFIED'')
   \<and> (BuildsDb_get (db c) n = Some b
       \<or> BuildsDb_get (db c) n = None \<and> from_name w n = (Done, Some b))
   \<and> succeeded j \<and> failed j \<longrightarrow>
   (m ''runboat/job-kind'' = Some ''initialize'' \<longrightarrow>
      filter is_call (snd (snd (job_event w t j c))) = [Call (On_initialize_succeeded b)]
      \<and> Call (On_initialize_failed b) \<notin> set (snd (snd (job_event w t j c))))
   \<and> (m ''runboat/job-kind'' = Some ''cleanup'' \<longrightarrow>
      filter is_call (snd (snd (job_event w t j c))) = [Call (On_cleanup_succeeded b)]
      \<and> Call (On_cleanup_failed b) \<notin> set (snd (snd (job_event w t j c))))"
proof (intro impI conjI)
  assume a: "labels j = Some m \<and> m ''runboat/build'' = Some n \<and> n \<noteq> []
   \<and> (t = ''ADDED'' \<or> t = ''MODIFIED'')
   \<and> (BuildsDb_get (db c) n = Some b
       \<or> BuildsDb_get (db c) n = None \<and> from_name w n = (Done, Some b))
   \<and> succeeded j \<and> failed j"
  {
    assume k: "m ''runboat/job-kind'' = Some ''initialize''"
    obtain es where es: "filter is_call es = []"
      "job_event w t j c = (fst (dispatch w ''initialize'' j b), c,
          es @ snd (dispatch w ''initialize'' j b))"
      using job_event_found [of j m n t c b w "''initialize''"] a k by blast
    then show "filter is_call (snd (snd (job_event w t j c))) = [Call (On_initialize_succeeded b)]"
      using a by (simp add: dispatch_initialize)
    have "Call (On_initialize_failed b) \<notin> set es"
      using es(1) by (auto simp add: filter_empty_conv)
    then show "Call (On_initialize_failed b) \<notin> set (snd (snd (job_event w t j c)))"
      using a es by (simp add: dispatch_initialize)
  }
  {
    assume k: "m ''runboat/job-kind'' = Some ''cleanup''"
    obtain es where es: "filter is_call es = []"
      "job_event w t j c = (fst (dispatch w ''cleanup'' j b), c,
          es @ snd (dispatch w ''cleanup'' j b))"
      using job_event_found [of j m n t c b w "''cleanup''"] a k by blast
    then show "filter is_call (snd (snd (job_event w t j c))) = [Call (On_cleanup_succeeded b)]"
      using a by (simp add: dispatch_cleanup)
    have "Call (On_cleanup_failed b) \<notin> set es"
      using es(1) by (auto simp add: filter_empty_conv)
    then show "Call (On_cleanup_failed b) \<notin> set (snd (snd (job_event w t j c)))"
      using a es by (simp add: dispatch_cleanup)
  }
qed

text \<open>
  The theorem at an initialization job and a cleanup job of an indexed build, each
  reporting succeeded and failed at once.
\<close>

theorem succeeded_before_failed_witness:
  "succeeded (example_job ''initialize'' True True)
   \<and> failed (example_job ''initialize'' True True)
   \<and> snd (snd (job_event quiet_world ''MODIFIED'' (example_job ''initialize'' True True) indexed))
       = [Log (Debug_job ''MODIFIED'' ''Job'' ''initialize'' ''b7''),
          Call (On_initialize_succeeded (labelled_build app_deployment))]
   \<and> succeeded (example_job ''cleanup'' True True)
   \<and> failed (example_job ''cleanup'' True True)
   \<and> snd (snd (job_event quiet_world ''MODIFIED'' (example_job ''cleanup'' True True) indexed))
       = [Log (Debug_job ''MODIFIED'' ''Job'' ''cleanup'' ''b7''),
          Call (On_cleanup_succeeded (labelled_build app_deployment))]"
  using succeeded_before_failed
    [where j = "example_job ''initialize'' True True" and m = "job_labels ''initialize''" and n = "''b7''" and t = "''MODIFIED''"
       and c = indexed and b = "labelled_build app_deployment" and w = quiet_world]
    succeeded_before_failed
    [where j = "example_job ''cleanup'' True True" and m = "job_labels ''cleanup''" and n = "''b7''" and t = "''MODIFIED''"
       and c = indexed and b = "labelled_build app_deployment" and w = quiet_world]
  by (simp add: example_job_labels indexed_get job_event_def resolve_build_def
        dispatch_initialize dispatch_cleanup)

subsection \<open>Counts\<close>

lemma names_after_add:
  "set (map name (BuildsDb_add rows b)) = insert (name b) (set (map name rows))"
  by (induction rows) auto

lemma distinct_after_add:
  "distinct (map name rows) \<Longrightarrow> distinct (map name (BuildsDb_add rows b))"
proof (induction rows)
  case Nil
  then show ?case by simp
next
  case (Cons x xs)
  show ?case
  proof (cases "name x = name b")
    case True
    then show ?thesis using Cons.prems by simp
  next
    case False
    have "name x \<notin> set (map name (BuildsDb_add xs b))"
      using False Cons.prems unfolding names_after_add by simp
    then show ?thesis using False Cons by simp
  qed
qed

lemma distinct_after_remove:
  "distinct (map name rows) \<Longrightarrow> distinct (map name (BuildsDb_remove rows n))"
  by (simp add: BuildsDb_remove_def distinct_map_filter)

lemma distinct_after_mutations:
  "distinct (map name rows) \<Longrightarrow> distinct (map name (foldl mutate rows ms))"
proof (induction ms arbitrary: rows)
  case Nil
  then show ?case by simp
next
  case (Cons m ms)
  have "distinct (map name (mutate rows m))"
    using Cons.prems by (cases m) (simp_all add: distinct_after_add distinct_after_remove)
  then show ?case using Cons.IH by simp
qed

lemma get_distinct:
  "distinct (map name rows) \<Longrightarrow>
   BuildsDb_get rows n = Some b \<longleftrightarrow> b \<in> set rows \<and> name b = n"
  unfolding BuildsDb_get_def by (induction rows) auto

lemma count_live:
  assumes "distinct (map name rows)"
  shows "card {n. \<exists>b. BuildsDb_get rows n = Some b \<and> P b} = length (filter P rows)"
proof -
  have "{n. \<exists>b. BuildsDb_get rows n = Some b \<and> P b} = name ` set (filter P rows)"
    using get_distinct [OF assms] by auto
  moreover have "inj_on name (set (filter P rows))"
    using assms by (auto simp add: distinct_map intro: inj_on_subset)
  moreover have "distinct (filter P rows)"
    using assms by (simp add: distinct_map)
  ultimately show ?thesis
    using distinct_card [of "filter P rows"] by (simp add: card_image)
qed

text \<open>
  C8. The properties \<open>started\<close>, \<open>initializing\<close> and \<open>deployed\<close> are the three counts of
  the database the controller holds at the moment of the access; they depend on no
  other attribute of the controller. After any sequence of insertions and removals,
  starting from the empty database, each equals the number of names under which the
  database holds a build of the status asked for (any build, for \<open>deployed\<close>).
\<close>

theorem counts_are_live:
  "started c = BuildsDb_count_by_status (db c) BuildStatus_started
   \<and> initializing c = BuildsDb_count_by_init_status (db c) BuildInitStatus_started
   \<and> deployed c = BuildsDb_count_all (db c)
   \<and> started (c\<lparr>tasks := ts, task_attr := ta\<rparr>) = started c
   \<and> initializing (c\<lparr>tasks := ts, task_attr := ta\<rparr>) = initializing c
   \<and> deployed (c\<lparr>tasks := ts, task_attr := ta\<rparr>) = deployed c
   \<and> started (c\<lparr>db := foldl mutate BuildsDb_empty ms\<rparr>)
       = int (card {n. \<exists>b. BuildsDb_get (foldl mutate BuildsDb_empty ms) n = Some b
                          \<and> status b = BuildStatus_started})
   \<and> initializing (c\<lparr>db := foldl mutate BuildsDb_empty ms\<rparr>)
       = int (card {n. \<exists>b. BuildsDb_get (foldl mutate BuildsDb_empty ms) n = Some b
                          \<and> init_status b = BuildInitStatus_started})
   \<and> deployed (c\<lparr>db := foldl mutate BuildsDb_empty ms\<rparr>)
       = int (card {n. \<exists>b. BuildsDb_get (foldl mutate BuildsDb_empty ms) n = Some b})"
proof -
  have d: "distinct (map name (foldl mutate BuildsDb_empty ms))"
    by (rule distinct_after_mutations) (simp add: BuildsDb_empty_def)
  have "card {n. \<exists>b. BuildsDb_get (foldl mutate BuildsDb_empty ms) n = Some b}
      = length (foldl mutate BuildsDb_empty ms)"
    using count_live [OF d, of "\<lambda>b. True"] by simp
  then show ?thesis
    using count_live [OF d, of "\<lambda>b. status b = BuildStatus_started"]
      count_live [OF d, of "\<lambda>b. init_status b = BuildInitStatus_started"]
    by (simp add: started_def initializing_def deployed_def BuildsDb_count_by_status_def
          BuildsDb_count_by_init_status_def BuildsDb_count_all_def)
qed

text \<open>
  The theorem after five mutations, one of them a replacement and one a removal: two
  builds are left, one started and one initializing.
\<close>

theorem counts_are_live_witness:
  "map name (foldl mutate BuildsDb_empty example_mutations) = [''a'', ''c'']
   \<and> started (Controller_init\<lparr>db := foldl mutate BuildsDb_empty example_mutations\<rparr>) = 1
   \<and> initializing (Controller_init\<lparr>db := foldl mutate BuildsDb_empty example_mutations\<rparr>) = 1
   \<and> deployed (Controller_init\<lparr>db := foldl mutate BuildsDb_empty example_mutations\<rparr>) = 2
   \<and> card {n. \<exists>b. BuildsDb_get (foldl mutate BuildsDb_empty example_mutations) n = Some b
                  \<and> status b = BuildStatus_started} = 1
   \<and> card {n. \<exists>b. BuildsDb_get (foldl mutate BuildsDb_empty example_mutations) n = Some b} = 2"
proof -
  have rows: "foldl mutate BuildsDb_empty example_mutations =
      [example_build ''a'' BuildStatus_started BuildInitStatus_succeeded 3,
       example_build ''c'' BuildStatus_deploying BuildInitStatus_started 4]"
    by (simp add: example_mutations_def BuildsDb_empty_def BuildsDb_remove_def
          example_build_def)
  have counts:
    "started (Controller_init\<lparr>db := foldl mutate BuildsDb_empty example_mutations\<rparr>) = 1"
    "initializing (Controller_init\<lparr>db := foldl mutate BuildsDb_empty example_mutations\<rparr>) = 1"
    "deployed (Controller_init\<lparr>db := foldl mutate BuildsDb_empty example_mutations\<rparr>) = 2"
    unfolding rows
    by (simp_all add: started_def initializing_def deployed_def BuildsDb_count_by_status_def
          BuildsDb_count_by_init_status_def BuildsDb_count_all_def example_build_def)
  show ?thesis
    using counts_are_live [where c = Controller_init and ms = example_mutations] counts
    by (simp add: rows) (simp add: example_build_def)
qed

subsection \<open>start and stop\<close>

lemma length_cancel: "length (fold cancel hs tbl) = length tbl"
  by (induction hs arbitrary: tbl) (simp_all add: cancel_def)

lemma cancel_keeps:
  "h < length tbl \<Longrightarrow> cancel_requested (tbl ! h) \<Longrightarrow>
   cancel_requested (fold cancel hs tbl ! h)"
proof (induction hs arbitrary: tbl)
  case Nil
  then show ?case by simp
next
  case (Cons x xs)
  have "h < length (cancel x tbl)" "cancel_requested (cancel x tbl ! h)"
    using Cons.prems by (auto simp add: cancel_def nth_list_update)
  then show ?case using Cons.IH by simp
qed

lemma cancel_all:
  "h \<in> set hs \<Longrightarrow> h < length tbl \<Longrightarrow> cancel_requested (fold cancel hs tbl ! h)"
proof (induction hs arbitrary: tbl)
  case Nil
  then show ?case by simp
next
  case (Cons x xs)
  show ?case
  proof (cases "x = h")
    case True
    have "h < length (cancel h tbl)" "cancel_requested (cancel h tbl ! h)"
      using Cons.prems by (simp_all add: cancel_def)
    then show ?thesis using True cancel_keeps by simp
  next
    case False
    have "h < length (cancel x tbl)"
      using Cons.prems by (simp add: cancel_def)
    then show ?thesis using False Cons by simp
  qed
qed

lemma start_appends:
  "tasks (fst (start (c, tbl))) = tasks c @ [length tbl ..< length tbl + 5]"
proof -
  have "[length tbl ..< length tbl + 5]
      = [length tbl, length tbl + 1, length tbl + 2, length tbl + 3, length tbl + 4]"
    by (simp add: upt_rec)
  then show ?thesis
    by (simp add: start_def create_task_def)
qed

text \<open>
  C10. \<open>stop\<close> requests the cancellation of every task in \<open>_tasks\<close>, waits for them,
  and assigns the empty list to \<open>_task\<close>: \<open>_tasks\<close> is what it was and still holds the
  handles of the cancelled tasks. A \<open>start\<close> after it appends the handles of five new
  tasks behind them.
\<close>

theorem stop_keeps_tasks:
  "tasks (fst (stop (c, tbl))) = tasks c
   \<and> task_attr (fst (stop (c, tbl))) = Some []
   \<and> db (fst (stop (c, tbl))) = db c
   \<and> (\<forall>h \<in> set (tasks c). h < length tbl \<longrightarrow>
        cancel_requested (fst (snd (stop (c, tbl))) ! h))
   \<and> (case stop (c, tbl) of
        (c1, tbl1, es1) \<Rightarrow>
          tasks (fst (start (c1, tbl1))) = tasks c @ [length tbl ..< length tbl + 5])"
  by (simp add: stop_def cancel_all start_appends length_cancel)

text \<open>
  The theorem at a new controller that is started, stopped and started again: the
  handles 0 to 4 of the cancelled tasks stay in front of the handles 5 to 9.
\<close>

theorem stop_keeps_tasks_witness:
  "(case start (Controller_init, []) of
      (c1, tbl1, es1) \<Rightarrow>
        tasks c1 = [0, 1, 2, 3, 4] \<and> length tbl1 = 5
        \<and> (case stop (c1, tbl1) of
             (c2, tbl2, es2) \<Rightarrow>
               tasks c2 = [0, 1, 2, 3, 4] \<and> task_attr c2 = Some []
               \<and> map cancel_requested tbl2 = [True, True, True, True, True]
               \<and> (case start (c2, tbl2) of
                    (c3, tbl3, es3) \<Rightarrow>
                      tasks c3 = [0, 1, 2, 3, 4, 5, 6, 7, 8, 9]
                      \<and> map cancel_requested tbl3
                          = [True, True, True, True, True, False, False, False, False, False])))"
  using stop_keeps_tasks
    [where c = "fst (start (Controller_init, []))"
       and tbl = "fst (snd (start (Controller_init, [])))"]
  by (simp add: start_def stop_def create_task_def cancel_def Controller_init_def reset_def)

end
